theory Spec2Isabelle
  imports Main "HOL-Library.Word"
begin

section \<open>Data model (model.py)\<close>

text \<open>
  The three tables of \<^verbatim>\<open>model.py\<close>. Every table inherits its primary key \<^verbatim>\<open>id\<close> from
  \<^verbatim>\<open>UUIDMixin\<close>; the column is named per table here because \<open>id\<close> is the identity
  function of HOL. A UUID is a 128-bit value. A value produced by \<^verbatim>\<open>uuid4\<close> is random, so
  every operation that inserts a row takes the generated identifier as an argument.
  Form fields that the queries cast to \<^verbatim>\<open>Integer\<close> (age, year) are integers here.
\<close>

type_synonym uuid = "128 word"

record actor =
  id_actor :: uuid
  first_name :: string
  last_name :: string
  age :: int

record film =
  id_film :: uuid
  title :: string
  description :: string
  year :: int

record film_actor =
  id_film_actor :: uuid
  film_id :: uuid
  actor_id :: uuid

record store =
  actor_table :: "actor list"
  film_table :: "film list"
  film_actor_table :: "film_actor list"

text \<open>
  The \<^verbatim>\<open>CheckConstraint\<close>s of \<^verbatim>\<open>Actor\<close> and \<^verbatim>\<open>Film\<close>. The declared column widths
  (\<^verbatim>\<open>String(20)\<close>, \<^verbatim>\<open>String(25)\<close>, \<^verbatim>\<open>String(500)\<close>) admit every value the checks
  admit, so a row the checks accept fits its columns.
\<close>

definition check_actor :: "string \<Rightarrow> string \<Rightarrow> int \<Rightarrow> bool" where
  "check_actor fn ln ag \<longleftrightarrow> length fn < 20 \<and> length ln < 25 \<and> ag > 0 \<and> ag < 101"

definition check_film :: "string \<Rightarrow> string \<Rightarrow> int \<Rightarrow> bool" where
  "check_film t d y \<longleftrightarrow> length t < 20 \<and> length d < 500 \<and> y < 2030 \<and> y > 1900"

subsection \<open>Errors and responses\<close>

text \<open>
  An f-string is kept as the list of its literal and interpolated pieces. \<^verbatim>\<open>NotFound\<close> and
  \<^verbatim>\<open>Conflict\<close> are the werkzeug exceptions the views raise; \<^verbatim>\<open>IntegrityError\<close> stands
  for what the session raises when the database refuses a statement (the views catch
  none of it, so its class is not told apart further); \<^verbatim>\<open>AttributeError\<close> is Python's
  error for reading an attribute of \<^verbatim>\<open>None\<close>; \<^verbatim>\<open>RequestException\<close> and
  \<^verbatim>\<open>JSONDecodeError\<close> are what \<^verbatim>\<open>requests\<close> raises.
\<close>

datatype frag = Lit string | Uid uuid | Str string | Num int

datatype error =
    NotFound "frag list"
  | Conflict "frag list"
  | IntegrityError
  | AttributeError
  | RequestException
  | JSONDecodeError

type_synonym json = string

datatype response =
    Redirect_actor_detail string string int
  | Redirect_film_detail string int
  | Redirect_actors_list
  | Redirect_films_list
  | Render_film_detail film "actor option list" "json option"

text \<open>
  A view returns its response or raises, and on the way calls \<^verbatim>\<open>db.session.commit()\<close>
  some number of times. The outcome of a request is the pair of the two: what was returned
  or raised, and the database states committed, in order. Work of the session that was not
  committed when the request ends is discarded with the session.
\<close>

type_synonym outcome = "(error + response) \<times> store list"

definition db_after :: "store \<Rightarrow> outcome \<Rightarrow> store" where
  "db_after s out = (if snd out = [] then s else last (snd out))"

fun is_NotFound :: "error + response \<Rightarrow> bool" where
  "is_NotFound (Inl (NotFound m)) = True"
| "is_NotFound r = False"

fun is_Conflict :: "error + response \<Rightarrow> bool" where
  "is_Conflict (Inl (Conflict m)) = True"
| "is_Conflict r = False"

section \<open>Queries\<close>

text \<open>
  \<^verbatim>\<open>db.session.scalar(select(...).where(...))\<close> gives the first matching row or
  \<^verbatim>\<open>None\<close>; \<^verbatim>\<open>db.session.get(Model, id)\<close> gives the row of that primary key or
  \<^verbatim>\<open>None\<close>.
\<close>

definition select_actor :: "store \<Rightarrow> string \<Rightarrow> string \<Rightarrow> int \<Rightarrow> actor option" where
  "select_actor s fn ln ag =
     find (\<lambda>a. first_name a = fn \<and> last_name a = ln \<and> age a = ag) (actor_table s)"

definition select_film :: "store \<Rightarrow> string \<Rightarrow> int \<Rightarrow> film option" where
  "select_film s t y = find (\<lambda>f. title f = t \<and> year f = y) (film_table s)"

definition select_film_actor :: "store \<Rightarrow> uuid \<Rightarrow> uuid \<Rightarrow> film_actor option" where
  "select_film_actor s fid aid =
     find (\<lambda>r. film_id r = fid \<and> actor_id r = aid) (film_actor_table s)"

definition get_actor :: "store \<Rightarrow> uuid \<Rightarrow> actor option" where
  "get_actor s i = find (\<lambda>a. id_actor a = i) (actor_table s)"

definition get_film :: "store \<Rightarrow> uuid \<Rightarrow> film option" where
  "get_film s i = find (\<lambda>f. id_film f = i) (film_table s)"

text \<open>
  The relationships: \<^verbatim>\<open>Actor.films\<close> and \<^verbatim>\<open>Film.people\<close> are the association rows
  of an actor and of a film, \<^verbatim>\<open>FilmActor.film\<close> and \<^verbatim>\<open>FilmActor.actor\<close> the rows a
  foreign key points to (\<^verbatim>\<open>None\<close> when there is none).
\<close>

definition actor_films :: "store \<Rightarrow> actor \<Rightarrow> film_actor list" where
  "actor_films s a = filter (\<lambda>r. actor_id r = id_actor a) (film_actor_table s)"

definition film_people :: "store \<Rightarrow> film \<Rightarrow> film_actor list" where
  "film_people s f = filter (\<lambda>r. film_id r = id_film f) (film_actor_table s)"

definition film_of :: "store \<Rightarrow> film_actor \<Rightarrow> film option" where
  "film_of s r = get_film s (film_id r)"

definition actor_of :: "store \<Rightarrow> film_actor \<Rightarrow> actor option" where
  "actor_of s r = get_actor s (actor_id r)"

section \<open>Statements\<close>

text \<open>
  What the database does with one statement of the session: the table after it, or
  \<^verbatim>\<open>IntegrityError\<close> when the primary key, a \<^verbatim>\<open>UniqueConstraint\<close>, a
  \<^verbatim>\<open>CheckConstraint\<close> or a \<^verbatim>\<open>ForeignKey\<close> of \<^verbatim>\<open>model.py\<close> refuses it.
\<close>

definition insert_actor :: "store \<Rightarrow> actor \<Rightarrow> error + store" where
  "insert_actor s a =
     (if check_actor (first_name a) (last_name a) (age a)
         \<and> get_actor s (id_actor a) = None
         \<and> select_actor s (first_name a) (last_name a) (age a) = None
      then Inr (s\<lparr>actor_table := actor_table s @ [a]\<rparr>)
      else Inl IntegrityError)"

definition insert_film :: "store \<Rightarrow> film \<Rightarrow> error + store" where
  "insert_film s f =
     (if check_film (title f) (description f) (year f)
         \<and> get_film s (id_film f) = None
         \<and> select_film s (title f) (year f) = None
      then Inr (s\<lparr>film_table := film_table s @ [f]\<rparr>)
      else Inl IntegrityError)"

definition insert_film_actor :: "store \<Rightarrow> film_actor \<Rightarrow> error + store" where
  "insert_film_actor s r =
     (if find (\<lambda>x. id_film_actor x = id_film_actor r) (film_actor_table s) = None
         \<and> select_film_actor s (film_id r) (actor_id r) = None
         \<and> get_film s (film_id r) \<noteq> None
         \<and> get_actor s (actor_id r) \<noteq> None
      then Inr (s\<lparr>film_actor_table := film_actor_table s @ [r]\<rparr>)
      else Inl IntegrityError)"

text \<open>\<^verbatim>\<open>update(Actor).where(Actor.id == actor_id).values(...)\<close> and its twin for films.\<close>

definition update_actor_where_id :: "store \<Rightarrow> uuid \<Rightarrow> string \<Rightarrow> string \<Rightarrow> int \<Rightarrow> error + store" where
  "update_actor_where_id s i fn ln ag =
     (if (get_actor s i \<noteq> None \<longrightarrow> check_actor fn ln ag)
         \<and> \<not> list_ex (\<lambda>a. id_actor a \<noteq> i \<and> first_name a = fn \<and> last_name a = ln \<and> age a = ag)
                (actor_table s)
      then Inr (s\<lparr>actor_table :=
                   map (\<lambda>a. if id_actor a = i
                             then a\<lparr>first_name := fn, last_name := ln, age := ag\<rparr> else a)
                       (actor_table s)\<rparr>)
      else Inl IntegrityError)"

definition update_film_where_id :: "store \<Rightarrow> uuid \<Rightarrow> string \<Rightarrow> string \<Rightarrow> int \<Rightarrow> error + store" where
  "update_film_where_id s i t d y =
     (if (get_film s i \<noteq> None \<longrightarrow> check_film t d y)
         \<and> \<not> list_ex (\<lambda>f. id_film f \<noteq> i \<and> title f = t \<and> year f = y) (film_table s)
      then Inr (s\<lparr>film_table :=
                   map (\<lambda>f. if id_film f = i
                             then f\<lparr>title := t, description := d, year := y\<rparr> else f)
                       (film_table s)\<rparr>)
      else Inl IntegrityError)"

text \<open>
  \<^verbatim>\<open>delete(FilmActor).where(...)\<close> removes every matching association row;
  \<^verbatim>\<open>db.session.delete(obj)\<close> removes the row of \<^verbatim>\<open>obj\<close>'s primary key, and the
  foreign keys refuse the removal of a film or an actor that an association row still
  references.
\<close>

definition delete_film_actor_where_film :: "store \<Rightarrow> uuid \<Rightarrow> store" where
  "delete_film_actor_where_film s fid =
     s\<lparr>film_actor_table := filter (\<lambda>r. film_id r \<noteq> fid) (film_actor_table s)\<rparr>"

definition delete_film_actor_where_actor :: "store \<Rightarrow> uuid \<Rightarrow> store" where
  "delete_film_actor_where_actor s aid =
     s\<lparr>film_actor_table := filter (\<lambda>r. actor_id r \<noteq> aid) (film_actor_table s)\<rparr>"

definition delete_film_actor_row :: "store \<Rightarrow> film_actor \<Rightarrow> store" where
  "delete_film_actor_row s r =
     s\<lparr>film_actor_table :=
         filter (\<lambda>x. id_film_actor x \<noteq> id_film_actor r) (film_actor_table s)\<rparr>"

definition delete_film_row :: "store \<Rightarrow> film \<Rightarrow> error + store" where
  "delete_film_row s f =
     (if list_ex (\<lambda>r. film_id r = id_film f) (film_actor_table s) then Inl IntegrityError
      else Inr (s\<lparr>film_table := filter (\<lambda>x. id_film x \<noteq> id_film f) (film_table s)\<rparr>))"

definition delete_actor_row :: "store \<Rightarrow> actor \<Rightarrow> error + store" where
  "delete_actor_row s a =
     (if list_ex (\<lambda>r. actor_id r = id_actor a) (film_actor_table s) then Inl IntegrityError
      else Inr (s\<lparr>actor_table := filter (\<lambda>x. id_actor x \<noteq> id_actor a) (actor_table s)\<rparr>))"

section \<open>Views on actors (views/actors.py)\<close>

text \<open>
  Each view as it runs on a POST request. Where a view has a GET branch, that branch only
  renders a form.
\<close>

definition add_actor :: "store \<Rightarrow> uuid \<Rightarrow> string \<Rightarrow> string \<Rightarrow> int \<Rightarrow> outcome" where
  "add_actor s new_id fn ln ag =
     (case select_actor s fn ln ag of
        Some a \<Rightarrow> (Inr (Redirect_actor_detail fn ln ag), [])
      | None \<Rightarrow>
          (case insert_actor s \<lparr>id_actor = new_id, first_name = fn, last_name = ln, age = ag\<rparr> of
             Inl e \<Rightarrow> (Inl e, [])
           | Inr s1 \<Rightarrow> (Inr (Redirect_actor_detail fn ln ag), [s1])))"

definition update_actor :: "store \<Rightarrow> uuid \<Rightarrow> string \<Rightarrow> string \<Rightarrow> int \<Rightarrow> outcome" where
  "update_actor s aid fn ln new_age =
     (case get_actor s aid of
        None \<Rightarrow> (Inl (NotFound [Lit ''Actor with id \"'', Uid aid, Lit ''\" not found!'']), [])
      | Some a \<Rightarrow>
          (case select_actor s fn ln new_age of
             Some existing_new_actor \<Rightarrow>
               (Inl (Conflict [Lit ''Actor \"'', Str fn, Lit '' '', Str ln, Lit ''\" with age '',
                               Num new_age, Lit '' already exists!'']), [])
           | None \<Rightarrow>
               (case update_actor_where_id s aid fn ln new_age of
                  Inl e \<Rightarrow> (Inl e, [])
                | Inr s1 \<Rightarrow> (Inr (Redirect_actor_detail fn ln new_age), [s1]))))"

text \<open>
  The census loop of \<^verbatim>\<open>delete_actor\<close>: \<open>acc\<close> is \<^verbatim>\<open>films_to_delete\<close>. Reading
  \<^verbatim>\<open>film.people\<close> when \<^verbatim>\<open>film_actor.film\<close> is \<^verbatim>\<open>None\<close> raises.
\<close>

fun census :: "store \<Rightarrow> film_actor list \<Rightarrow> film list \<Rightarrow> error + film list" where
  "census s [] acc = Inr acc"
| "census s (r # rs) acc =
     (case film_of s r of
        None \<Rightarrow> Inl AttributeError
      | Some f \<Rightarrow> census s rs (if length (film_people s f) = 1 then acc @ [f] else acc))"

fun delete_films :: "store \<Rightarrow> film list \<Rightarrow> error + store" where
  "delete_films s [] = Inr s"
| "delete_films s (f # fs) =
     (case delete_film_row s f of Inl e \<Rightarrow> Inl e | Inr s1 \<Rightarrow> delete_films s1 fs)"

definition delete_actor :: "store \<Rightarrow> uuid \<Rightarrow> outcome" where
  "delete_actor s aid =
     (case get_actor s aid of
        None \<Rightarrow> (Inl (NotFound [Lit ''Actor with id \"'', Uid aid, Lit ''\" not found!'']), [])
      | Some a \<Rightarrow>
          (case census s (actor_films s a) [] of
             Inl e \<Rightarrow> (Inl e, [])
           | Inr films_to_delete \<Rightarrow>
               (case delete_films (delete_film_actor_where_actor s (id_actor a)) films_to_delete of
                  Inl e \<Rightarrow> (Inl e, [])
                | Inr s2 \<Rightarrow>
                    (case delete_actor_row s2 a of
                       Inl e \<Rightarrow> (Inl e, [])
                     | Inr s3 \<Rightarrow> (Inr Redirect_actors_list, [s3])))))"

section \<open>Views on films (views/films.py)\<close>

text \<open>
  \<^verbatim>\<open>titles = [film.title for film in films]\<close> over
  \<^verbatim>\<open>films = [film_actor.film for film_actor in actor.films]\<close>: a \<^verbatim>\<open>None\<close> among the
  films raises.
\<close>

fun titles_of :: "film option list \<Rightarrow> error + string list" where
  "titles_of [] = Inr []"
| "titles_of (None # fs) = Inl AttributeError"
| "titles_of (Some f # fs) =
     (case titles_of fs of Inl e \<Rightarrow> Inl e | Inr ts \<Rightarrow> Inr (title f # ts))"

definition actor_titles :: "store \<Rightarrow> actor \<Rightarrow> error + string list" where
  "actor_titles s a = titles_of (map (film_of s) (actor_films s a))"

text \<open>
  The tail of \<^verbatim>\<open>add_film\<close>: the association row is added and committed; \<open>log\<close> holds
  what the view has committed before.
\<close>

definition link_film_actor ::
  "store \<Rightarrow> store list \<Rightarrow> uuid \<Rightarrow> film \<Rightarrow> actor \<Rightarrow> string \<Rightarrow> int \<Rightarrow> outcome" where
  "link_film_actor s log new_id f a t y =
     (case insert_film_actor s
             \<lparr>id_film_actor = new_id, film_id = id_film f, actor_id = id_actor a\<rparr> of
        Inl e \<Rightarrow> (Inl e, log)
      | Inr s2 \<Rightarrow> (Inr (Redirect_film_detail t y), log @ [s2]))"

definition add_film ::
  "store \<Rightarrow> uuid \<Rightarrow> uuid \<Rightarrow> string \<Rightarrow> string \<Rightarrow> int \<Rightarrow> string \<Rightarrow> string \<Rightarrow> int \<Rightarrow> outcome" where
  "add_film s new_film_id new_film_actor_id fn ln ag t d y =
     (case select_actor s fn ln ag of
        None \<Rightarrow> (Inl (NotFound [Lit ''Actor with name \"'', Str fn, Lit ''\" not found'']), [])
      | Some a \<Rightarrow>
          (case actor_titles s a of
             Inl e \<Rightarrow> (Inl e, [])
           | Inr titles \<Rightarrow>
               if t \<in> set titles
               then (Inl (Conflict [Lit ''This actor has already a film \"'', Str t,
                                    Lit ''\" in '', Num y, Lit ''!'']), [])
               else
                 (case select_film s t y of
                    Some f \<Rightarrow> link_film_actor s [] new_film_actor_id f a t y
                  | None \<Rightarrow>
                      (case insert_film s
                              \<lparr>id_film = new_film_id, title = t, description = d, year = y\<rparr> of
                         Inl e \<Rightarrow> (Inl e, [])
                       | Inr s1 \<Rightarrow>
                           link_film_actor s1 [s1] new_film_actor_id
                             \<lparr>id_film = new_film_id, title = t, description = d, year = y\<rparr>
                             a t y))))"

definition update_film :: "store \<Rightarrow> uuid \<Rightarrow> string \<Rightarrow> string \<Rightarrow> int \<Rightarrow> outcome" where
  "update_film s fid t d y =
     (case get_film s fid of
        None \<Rightarrow> (Inl (NotFound [Lit ''Film with id \"'', Uid fid, Lit ''\" not found!'']), [])
      | Some f \<Rightarrow>
          (case select_film s t y of
             Some existing_new_film \<Rightarrow>
               (Inl (Conflict [Lit ''Film with title: \"'', Str t, Lit ''\" with '', Num y,
                               Lit '' already exists!'']), [])
           | None \<Rightarrow>
               (case update_film_where_id s fid t d y of
                  Inl e \<Rightarrow> (Inl e, [])
                | Inr s1 \<Rightarrow> (Inr (Redirect_film_detail t y), [s1]))))"

definition delete_film :: "store \<Rightarrow> uuid \<Rightarrow> outcome" where
  "delete_film s fid =
     (case get_film s fid of
        None \<Rightarrow> (Inl (NotFound [Lit ''Film with id \"'', Uid fid, Lit ''\" not found!'']), [])
      | Some f \<Rightarrow>
          (case delete_film_row (delete_film_actor_where_film s (id_film f)) f of
             Inl e \<Rightarrow> (Inl e, [])
           | Inr s2 \<Rightarrow> (Inr Redirect_films_list, [s2])))"

definition delete_film_by_actor :: "store \<Rightarrow> uuid \<Rightarrow> uuid \<Rightarrow> outcome" where
  "delete_film_by_actor s fid aid =
     (case get_actor s aid of
        None \<Rightarrow> (Inl (NotFound [Lit ''Actor with id \"'', Uid aid, Lit ''\" not found!'']), [])
      | Some a \<Rightarrow>
          (case select_film_actor s fid aid of
             None \<Rightarrow>
               (Inl (NotFound [Lit ''Film with id \"'', Uid fid,
                               Lit ''\" not found for actor with id \"'', Uid aid, Lit ''\"!'']), [])
           | Some r \<Rightarrow>
               (Inr (Redirect_actor_detail (first_name a) (last_name a) (age a)),
                [delete_film_actor_row s r])))"

section \<open>Rating lookup (utils.py) and the film detail view\<close>

text \<open>
  \<^verbatim>\<open>requests.get\<close> either raises (no connection) or returns a response with a status
  code and a body; \<^verbatim>\<open>response.json()\<close> raises when the body is not JSON, which is the
  body \<^verbatim>\<open>None\<close> here. The network is the argument \<open>http\<close>, from URL to reply.
\<close>

datatype http_reply = Connection_failed | Reply int "json option"

definition API_URL :: string where
  "API_URL = ''https://api.kinopoisk.dev/v1.4/movie/search?page=1&limit=1&query=''"

definition OK :: int where
  "OK = 200"

definition get_rating_movie :: "(string \<Rightarrow> http_reply) \<Rightarrow> string \<Rightarrow> error + json option" where
  "get_rating_movie http t =
     (case http (API_URL @ t) of
        Connection_failed \<Rightarrow> Inl RequestException
      | Reply status_code body \<Rightarrow>
          if status_code = OK
          then (case body of None \<Rightarrow> Inl JSONDecodeError | Some j \<Rightarrow> Inr (Some j))
          else Inr None)"

definition detail :: "store \<Rightarrow> (string \<Rightarrow> http_reply) \<Rightarrow> string \<Rightarrow> int \<Rightarrow> outcome" where
  "detail s http t y =
     (case select_film s t y of
        None \<Rightarrow> (Inl (NotFound [Lit ''Film with title: '', Str t, Lit '' not found!!!'']), [])
      | Some f \<Rightarrow>
          (case get_rating_movie http t of
             Inl e \<Rightarrow> (Inl e, [])
           | Inr movie_data \<Rightarrow>
               (Inr (Render_film_detail f (map (actor_of s) (film_people s f)) movie_data), [])))"

section \<open>Well-formed stores\<close>

text \<open>
  The states the database can be in: primary keys and the declared unique columns are
  distinct, every row passes its check constraints, every foreign key resolves.
\<close>

definition valid_store :: "store \<Rightarrow> bool" where
  "valid_store s \<longleftrightarrow>
     distinct (map id_actor (actor_table s))
   \<and> distinct (map (\<lambda>a. (first_name a, last_name a, age a)) (actor_table s))
   \<and> list_all (\<lambda>a. check_actor (first_name a) (last_name a) (age a)) (actor_table s)
   \<and> distinct (map id_film (film_table s))
   \<and> distinct (map (\<lambda>f. (title f, year f)) (film_table s))
   \<and> list_all (\<lambda>f. check_film (title f) (description f) (year f)) (film_table s)
   \<and> distinct (map id_film_actor (film_actor_table s))
   \<and> distinct (map (\<lambda>r. (film_id r, actor_id r)) (film_actor_table s))
   \<and> list_all (\<lambda>r. get_film s (film_id r) \<noteq> None \<and> get_actor s (actor_id r) \<noteq> None)
        (film_actor_table s)"

section \<open>Derived notions used in the statements\<close>

text \<open>
  The films the census of \<^verbatim>\<open>delete_actor\<close> collects from a list of association rows,
  written without the accumulator: the film of each row whose \<^verbatim>\<open>people\<close> has length 1.
\<close>

definition marked :: "store \<Rightarrow> film_actor list \<Rightarrow> film list" where
  "marked s rs =
     concat (map (\<lambda>r. case film_of s r of
                         None \<Rightarrow> []
                       | Some f \<Rightarrow> if length (film_people s f) = 1 then [f] else []) rs)"

text \<open>
  A sequence of POST requests to \<^verbatim>\<open>/actors/add/\<close>, each with the identifier
  \<^verbatim>\<open>uuid4\<close> would give its new row, and the database they leave.
\<close>

fun add_actors :: "store \<Rightarrow> (uuid \<times> string \<times> string \<times> int) list \<Rightarrow> store" where
  "add_actors s [] = s"
| "add_actors s ((i, fn, ln, ag) # reqs) = add_actors (db_after s (add_actor s i fn ln ag)) reqs"

text \<open>
  A request that is one unit of work: when it raises, nothing was committed and the
  database is as before; when it returns, it committed at most once.
\<close>

definition one_unit_of_work :: "store \<Rightarrow> outcome \<Rightarrow> bool" where
  "one_unit_of_work s out =
     (case fst out of
        Inl e \<Rightarrow> snd out = [] \<and> db_after s out = s
      | Inr r \<Rightarrow> length (snd out) \<le> 1)"

section \<open>A sample database\<close>

text \<open>
  Two actors and two films: Tom is the only actor of Cast Away, and shares Sleepless
  with Meg.
\<close>

definition tom :: actor where
  "tom = \<lparr>id_actor = 1, first_name = ''Tom'', last_name = ''Hanks'', age = 60\<rparr>"

definition meg :: actor where
  "meg = \<lparr>id_actor = 2, first_name = ''Meg'', last_name = ''Ryan'', age = 55\<rparr>"

definition cast_away :: film where
  "cast_away = \<lparr>id_film = 11, title = ''Cast Away'',
                 description = ''A man stranded on an island.'', year = 2000\<rparr>"

definition sleepless :: film where
  "sleepless = \<lparr>id_film = 12, title = ''Sleepless'',
                 description = ''Two strangers and a radio show.'', year = 1993\<rparr>"

definition demo_store :: store where
  "demo_store =
     \<lparr>actor_table = [tom, meg],
      film_table = [cast_away, sleepless],
      film_actor_table =
        [\<lparr>id_film_actor = 21, film_id = 11, actor_id = 1\<rparr>,
         \<lparr>id_film_actor = 22, film_id = 12, actor_id = 1\<rparr>,
         \<lparr>id_film_actor = 23, film_id = 12, actor_id = 2\<rparr>]\<rparr>"

definition tom_only_store :: store where
  "tom_only_store = \<lparr>actor_table = [tom], film_table = [], film_actor_table = []\<rparr>"

definition empty_store :: store where
  "empty_store = \<lparr>actor_table = [], film_table = [], film_actor_table = []\<rparr>"

definition forrest_gump :: film where
  "forrest_gump = \<lparr>id_film = 11, title = ''Forrest Gump'',
                    description = ''A story about a man named Forrest.'', year = 1994\<rparr>"

text \<open>A network on which every request fails to connect.\<close>

definition unreachable :: "string \<Rightarrow> http_reply" where
  "unreachable url = Connection_failed"

section \<open>Lookups and the deletion of a film\<close>

lemma find_Some_D: "find P xs = Some x \<Longrightarrow> x \<in> set xs \<and> P x"
  by (induction xs) (auto split: if_splits)

lemma find_None_D: "find P xs = None \<Longrightarrow> x \<in> set xs \<Longrightarrow> \<not> P x"
  by (induction xs) (auto split: if_splits)

lemma find_distinct_key:
  "distinct (map k xs) \<Longrightarrow> x \<in> set xs \<Longrightarrow> find (\<lambda>y. k y = k x) xs = Some x"
  by (induction xs) (auto simp: image_iff)

lemma filter_key_remove1:
  "distinct (map k xs) \<Longrightarrow> x \<in> set xs \<Longrightarrow> filter (\<lambda>y. k y \<noteq> k x) xs = remove1 x xs"
proof (induction xs)
  case Nil
  then show ?case by simp
next
  case (Cons y ys)
  show ?case
  proof (cases "y = x")
    case True
    with Cons.prems have "\<forall>z\<in>set ys. k z \<noteq> k x" by (auto simp: image_iff)
    then have "filter (\<lambda>z. k z \<noteq> k x) ys = ys" by (simp add: filter_id_conv)
    with True show ?thesis by simp
  next
    case False
    with Cons.prems have "x \<in> set ys" "k y \<noteq> k x" by (auto simp: image_iff)
    with Cons show ?thesis using False by simp
  qed
qed

lemma get_film_id: "get_film s i = Some f \<Longrightarrow> id_film f = i"
  unfolding get_film_def by (drule find_Some_D) simp

lemma get_actor_id: "get_actor s i = Some a \<Longrightarrow> id_actor a = i"
  unfolding get_actor_def by (drule find_Some_D) simp

lemma delete_film_found:
  assumes "get_film s fid = Some f"
  shows "delete_film s fid =
          (Inr Redirect_films_list,
           [s\<lparr>film_actor_table := filter (\<lambda>r. film_id r \<noteq> fid) (film_actor_table s),
              film_table := filter (\<lambda>x. id_film x \<noteq> fid) (film_table s)\<rparr>])"
  using assms get_film_id[OF assms]
  by (simp add: delete_film_def delete_film_row_def delete_film_actor_where_film_def
        list_ex_iff)

text \<open>
  Claim C7. \<^verbatim>\<open>delete_film\<close> raises \<^verbatim>\<open>NotFound\<close> when the id does not resolve and
  then commits nothing. Otherwise it succeeds: the association rows of the film and the
  film row are gone, and nothing else is. In every case the actor table after the call is
  the actor table before it, so an actor whose last film is deleted stays.
\<close>

theorem delete_film_no_cascade:
  "(get_film s fid = None \<longrightarrow>
      delete_film s fid =
        (Inl (NotFound [Lit ''Film with id \"'', Uid fid, Lit ''\" not found!'']), [])
      \<and> db_after s (delete_film s fid) = s)
   \<and> (get_film s fid \<noteq> None \<longrightarrow>
        fst (delete_film s fid) = Inr Redirect_films_list
      \<and> film_actor_table (db_after s (delete_film s fid)) =
          filter (\<lambda>r. film_id r \<noteq> fid) (film_actor_table s)
      \<and> film_table (db_after s (delete_film s fid)) =
          filter (\<lambda>x. id_film x \<noteq> fid) (film_table s))
   \<and> actor_table (db_after s (delete_film s fid)) = actor_table s"
proof (cases "get_film s fid")
  case None
  then show ?thesis by (simp add: delete_film_def db_after_def)
next
  case (Some f)
  show ?thesis by (simp add: delete_film_found[OF Some] db_after_def Some)
qed

section \<open>Removing one association\<close>

lemma select_film_actor_D:
  "select_film_actor s fid aid = Some r \<Longrightarrow>
     r \<in> set (film_actor_table s) \<and> film_id r = fid \<and> actor_id r = aid"
  unfolding select_film_actor_def by (drule find_Some_D) simp

text \<open>
  Claim C8. \<^verbatim>\<open>delete_film_by_actor\<close> raises \<^verbatim>\<open>NotFound\<close> when the actor id does not
  resolve, and \<^verbatim>\<open>NotFound\<close> with another message when the actor exists but no
  association row has the pair; whenever it raises, the database after the call is the
  database before it. On success the association with that pair is the one row removed,
  and the film and actor tables are as before.
\<close>

theorem delete_film_by_actor_one_row:
  "(get_actor s aid = None \<longrightarrow>
      delete_film_by_actor s fid aid =
        (Inl (NotFound [Lit ''Actor with id \"'', Uid aid, Lit ''\" not found!'']), []))
   \<and> (get_actor s aid \<noteq> None \<and> select_film_actor s fid aid = None \<longrightarrow>
        delete_film_by_actor s fid aid =
          (Inl (NotFound [Lit ''Film with id \"'', Uid fid,
                          Lit ''\" not found for actor with id \"'', Uid aid, Lit ''\"!'']), []))
   \<and> [Lit ''Actor with id \"'', Uid aid, Lit ''\" not found!'']
       \<noteq> [Lit ''Film with id \"'', Uid fid,
           Lit ''\" not found for actor with id \"'', Uid aid, Lit ''\"!'']
   \<and> (\<forall>e. fst (delete_film_by_actor s fid aid) = Inl e \<longrightarrow>
        db_after s (delete_film_by_actor s fid aid) = s)
   \<and> (\<forall>a r. valid_store s \<and> get_actor s aid = Some a \<and> select_film_actor s fid aid = Some r \<longrightarrow>
        fst (delete_film_by_actor s fid aid) =
          Inr (Redirect_actor_detail (first_name a) (last_name a) (age a))
      \<and> r \<in> set (film_actor_table s) \<and> film_id r = fid \<and> actor_id r = aid
      \<and> film_actor_table (db_after s (delete_film_by_actor s fid aid)) =
          remove1 r (film_actor_table s)
      \<and> film_table (db_after s (delete_film_by_actor s fid aid)) = film_table s
      \<and> actor_table (db_after s (delete_film_by_actor s fid aid)) = actor_table s)"
proof (intro conjI allI impI)
  fix a r
  assume h: "valid_store s \<and> get_actor s aid = Some a \<and> select_film_actor s fid aid = Some r"
  then have d: "distinct (map id_film_actor (film_actor_table s))"
    by (simp add: valid_store_def)
  from h have r: "r \<in> set (film_actor_table s)" "film_id r = fid" "actor_id r = aid"
    using select_film_actor_D by blast+
  show "r \<in> set (film_actor_table s)" "film_id r = fid" "actor_id r = aid" by fact+
  from h show "fst (delete_film_by_actor s fid aid) =
          Inr (Redirect_actor_detail (first_name a) (last_name a) (age a))"
    by (simp add: delete_film_by_actor_def)
  from h show "film_actor_table (db_after s (delete_film_by_actor s fid aid)) =
          remove1 r (film_actor_table s)"
    by (simp add: delete_film_by_actor_def db_after_def delete_film_actor_row_def
          filter_key_remove1[OF d r(1)])
  from h show "film_table (db_after s (delete_film_by_actor s fid aid)) = film_table s"
    by (simp add: delete_film_by_actor_def db_after_def delete_film_actor_row_def)
  from h show "actor_table (db_after s (delete_film_by_actor s fid aid)) = actor_table s"
    by (simp add: delete_film_by_actor_def db_after_def delete_film_actor_row_def)
qed (auto simp: delete_film_by_actor_def db_after_def split: option.splits)

section \<open>Updates\<close>

lemma filter_key_single:
  "distinct (map k xs) \<Longrightarrow> x \<in> set xs \<Longrightarrow> filter (\<lambda>y. k y = k x) xs = [x]"
proof (induction xs)
  case Nil
  then show ?case by simp
next
  case (Cons y ys)
  show ?case
  proof (cases "y = x")
    case True
    with Cons.prems have "\<forall>z\<in>set ys. k z \<noteq> k x" by (auto simp: image_iff)
    then have "filter (\<lambda>z. k z = k x) ys = []" by (simp add: filter_empty_conv)
    with True show ?thesis by simp
  next
    case False
    with Cons.prems have "x \<in> set ys" "k y \<noteq> k x" by (auto simp: image_iff)
    with Cons show ?thesis by simp
  qed
qed

lemma find_map_upd:
  assumes "\<And>a. k (g a) = k a"
  shows "find (\<lambda>a. k a = i) (map (\<lambda>a. if k a = i then g a else a) xs)
           = map_option g (find (\<lambda>a. k a = i) xs)"
  by (induction xs) (simp_all add: assms)

lemma select_actor_None_iff:
  "select_actor s fn ln ag = None \<longleftrightarrow>
     \<not> (\<exists>a\<in>set (actor_table s). first_name a = fn \<and> last_name a = ln \<and> age a = ag)"
  by (auto simp: select_actor_def find_None_iff)

lemma select_film_None_iff:
  "select_film s t y = None \<longleftrightarrow> \<not> (\<exists>f\<in>set (film_table s). title f = t \<and> year f = y)"
  by (auto simp: select_film_def find_None_iff)

lemma get_actor_mem: "get_actor s i = Some a \<Longrightarrow> a \<in> set (actor_table s)"
  unfolding get_actor_def by (drule find_Some_D) simp

lemma get_film_mem: "get_film s i = Some f \<Longrightarrow> f \<in> set (film_table s)"
  unfolding get_film_def by (drule find_Some_D) simp

lemma update_actor_Inr:
  assumes "fst (update_actor s aid fn ln ag) = Inr r"
  shows "update_actor s aid fn ln ag =
           (Inr (Redirect_actor_detail fn ln ag),
            [s\<lparr>actor_table :=
                 map (\<lambda>a. if id_actor a = aid
                           then a\<lparr>first_name := fn, last_name := ln, age := ag\<rparr> else a)
                     (actor_table s)\<rparr>])
         \<and> get_actor s aid \<noteq> None \<and> select_actor s fn ln ag = None \<and> check_actor fn ln ag"
  using assms
  by (auto simp: update_actor_def update_actor_where_id_def split: option.splits if_splits)

lemma update_film_Inr:
  assumes "fst (update_film s fid t d y) = Inr r"
  shows "update_film s fid t d y =
           (Inr (Redirect_film_detail t y),
            [s\<lparr>film_table :=
                 map (\<lambda>f. if id_film f = fid
                           then f\<lparr>title := t, description := d, year := y\<rparr> else f)
                     (film_table s)\<rparr>])
         \<and> get_film s fid \<noteq> None \<and> select_film s t y = None \<and> check_film t d y"
  using assms
  by (auto simp: update_film_def update_film_where_id_def split: option.splits if_splits)

lemma update_actor_succeeds:
  assumes "get_actor s aid = Some a" "select_actor s fn ln ag = None" "check_actor fn ln ag"
  shows "fst (update_actor s aid fn ln ag) = Inr (Redirect_actor_detail fn ln ag)"
proof -
  from assms(2) have "\<not> list_ex (\<lambda>a. id_actor a \<noteq> aid \<and> first_name a = fn \<and> last_name a = ln \<and> age a = ag)
                (actor_table s)"
    by (auto simp: select_actor_None_iff list_ex_iff)
  with assms show ?thesis
    by (simp add: update_actor_def update_actor_where_id_def)
qed

lemma update_film_succeeds:
  assumes "get_film s fid = Some f" "select_film s t y = None" "check_film t d y"
  shows "fst (update_film s fid t d y) = Inr (Redirect_film_detail t y)"
proof -
  from assms(2) have "\<not> list_ex (\<lambda>f. id_film f \<noteq> fid \<and> title f = t \<and> year f = y) (film_table s)"
    by (auto simp: select_film_None_iff list_ex_iff)
  with assms show ?thesis
    by (simp add: update_film_def update_film_where_id_def)
qed

lemma update_actor_conflict_iff:
  assumes "get_actor s aid = Some a"
  shows "is_Conflict (fst (update_actor s aid fn ln ag)) \<longleftrightarrow>
           (\<exists>b\<in>set (actor_table s). first_name b = fn \<and> last_name b = ln \<and> age b = ag)"
proof (cases "select_actor s fn ln ag")
  case None
  then have "\<not> is_Conflict (fst (update_actor s aid fn ln ag))"
    using assms by (simp add: update_actor_def update_actor_where_id_def)
  with None show ?thesis by (simp add: select_actor_None_iff)
next
  case (Some b)
  then have "is_Conflict (fst (update_actor s aid fn ln ag))"
    using assms by (simp add: update_actor_def)
  moreover from Some have "select_actor s fn ln ag \<noteq> None" by simp
  ultimately show ?thesis unfolding select_actor_None_iff by blast
qed

lemma update_film_conflict_iff:
  assumes "get_film s fid = Some f"
  shows "is_Conflict (fst (update_film s fid t d y)) \<longleftrightarrow>
           (\<exists>g\<in>set (film_table s). title g = t \<and> year g = y)"
proof (cases "select_film s t y")
  case None
  then have "\<not> is_Conflict (fst (update_film s fid t d y))"
    using assms by (simp add: update_film_def update_film_where_id_def)
  with None show ?thesis by (simp add: select_film_None_iff)
next
  case (Some b)
  then have "is_Conflict (fst (update_film s fid t d y))"
    using assms by (simp add: update_film_def)
  moreover from Some have "select_film s t y \<noteq> None" by simp
  ultimately show ?thesis unfolding select_film_None_iff by blast
qed

text \<open>
  Claim C4. \<^verbatim>\<open>update_actor\<close> raises \<^verbatim>\<open>NotFound\<close> when the id does not resolve. When
  it resolves, it raises \<^verbatim>\<open>Conflict\<close> exactly when some actor of the table carries the
  new triple; the target is not excluded, so submitting a record's own triple is a
  conflict. On success the target row carries the three new fields and its id.
  \<^verbatim>\<open>update_film\<close> does the same over the pair of title and year.
\<close>

theorem update_conflict_rule:
  "(get_actor s aid = None \<longrightarrow>
      update_actor s aid fn ln ag =
        (Inl (NotFound [Lit ''Actor with id \"'', Uid aid, Lit ''\" not found!'']), []))
   \<and> (get_actor s aid \<noteq> None \<longrightarrow>
        (is_Conflict (fst (update_actor s aid fn ln ag)) \<longleftrightarrow>
           (\<exists>b\<in>set (actor_table s). first_name b = fn \<and> last_name b = ln \<and> age b = ag)))
   \<and> (\<forall>a. get_actor s aid = Some a \<longrightarrow>
        is_Conflict (fst (update_actor s aid (first_name a) (last_name a) (age a))))
   \<and> (\<forall>r. fst (update_actor s aid fn ln ag) = Inr r \<longrightarrow>
        (\<exists>a. get_actor s aid = Some a
           \<and> get_actor (db_after s (update_actor s aid fn ln ag)) aid =
               Some (a\<lparr>first_name := fn, last_name := ln, age := ag\<rparr>)))
   \<and> (get_film s fid = None \<longrightarrow>
        update_film s fid t d y =
          (Inl (NotFound [Lit ''Film with id \"'', Uid fid, Lit ''\" not found!'']), []))
   \<and> (get_film s fid \<noteq> None \<longrightarrow>
        (is_Conflict (fst (update_film s fid t d y)) \<longleftrightarrow>
           (\<exists>g\<in>set (film_table s). title g = t \<and> year g = y)))
   \<and> (\<forall>f. get_film s fid = Some f \<longrightarrow>
        is_Conflict (fst (update_film s fid (title f) (description f) (year f))))
   \<and> (\<forall>r. fst (update_film s fid t d y) = Inr r \<longrightarrow>
        (\<exists>f. get_film s fid = Some f
           \<and> get_film (db_after s (update_film s fid t d y)) fid =
               Some (f\<lparr>title := t, description := d, year := y\<rparr>)))"
proof (intro conjI allI impI)
  show "update_actor s aid fn ln ag =
        (Inl (NotFound [Lit ''Actor with id \"'', Uid aid, Lit ''\" not found!'']), [])"
    if "get_actor s aid = None"
    using that by (simp add: update_actor_def)
  show "update_film s fid t d y =
          (Inl (NotFound [Lit ''Film with id \"'', Uid fid, Lit ''\" not found!'']), [])"
    if "get_film s fid = None"
    using that by (simp add: update_film_def)
  show "is_Conflict (fst (update_actor s aid fn ln ag)) \<longleftrightarrow>
           (\<exists>b\<in>set (actor_table s). first_name b = fn \<and> last_name b = ln \<and> age b = ag)"
    if "get_actor s aid \<noteq> None"
    using that update_actor_conflict_iff by blast
  show "is_Conflict (fst (update_film s fid t d y)) \<longleftrightarrow>
           (\<exists>g\<in>set (film_table s). title g = t \<and> year g = y)"
    if "get_film s fid \<noteq> None"
    using that update_film_conflict_iff by blast
  show "is_Conflict (fst (update_actor s aid (first_name a) (last_name a) (age a)))"
    if "get_actor s aid = Some a" for a
    using update_actor_conflict_iff[OF that] get_actor_mem[OF that] by blast
  show "is_Conflict (fst (update_film s fid (title f) (description f) (year f)))"
    if "get_film s fid = Some f" for f
    using update_film_conflict_iff[OF that] get_film_mem[OF that] by blast
  show "\<exists>a. get_actor s aid = Some a
           \<and> get_actor (db_after s (update_actor s aid fn ln ag)) aid =
               Some (a\<lparr>first_name := fn, last_name := ln, age := ag\<rparr>)"
    if "fst (update_actor s aid fn ln ag) = Inr r" for r
  proof -
    from update_actor_Inr[OF that] obtain a where a: "get_actor s aid = Some a" by auto
    then have "find (\<lambda>a. id_actor a = aid) (actor_table s) = Some a"
      by (simp add: get_actor_def)
    then have "get_actor (db_after s (update_actor s aid fn ln ag)) aid =
               Some (a\<lparr>first_name := fn, last_name := ln, age := ag\<rparr>)"
      using update_actor_Inr[OF that]
      by (simp add: db_after_def get_actor_def find_map_upd)
    with a show ?thesis by blast
  qed
  show "\<exists>f. get_film s fid = Some f
           \<and> get_film (db_after s (update_film s fid t d y)) fid =
               Some (f\<lparr>title := t, description := d, year := y\<rparr>)"
    if "fst (update_film s fid t d y) = Inr r" for r
  proof -
    from update_film_Inr[OF that] obtain f where f: "get_film s fid = Some f" by auto
    then have "find (\<lambda>a. id_film a = fid) (film_table s) = Some f"
      by (simp add: get_film_def)
    then have "get_film (db_after s (update_film s fid t d y)) fid =
               Some (f\<lparr>title := t, description := d, year := y\<rparr>)"
      using update_film_Inr[OF that]
      by (simp add: db_after_def get_film_def find_map_upd)
    with f show ?thesis by blast
  qed
qed

lemmas demo_defs = demo_store_def tom_def meg_def cast_away_def sleepless_def

lemma valid_demo_store: "valid_store demo_store"
  by (simp add: valid_store_def demo_defs check_actor_def check_film_def get_film_def get_actor_def)

theorem delete_film_no_cascade_witness:
  "get_film demo_store 12 \<noteq> None
   \<and> get_film demo_store 99 = None
   \<and> fst (delete_film demo_store 99) \<noteq> Inr Redirect_films_list
   \<and> db_after demo_store (delete_film demo_store 99) = demo_store
   \<and> fst (delete_film demo_store 12) = Inr Redirect_films_list
   \<and> film_table (db_after demo_store (delete_film demo_store 12)) = [cast_away]
   \<and> film_actor_table (db_after demo_store (delete_film demo_store 12)) =
       [\<lparr>id_film_actor = 21, film_id = 11, actor_id = 1\<rparr>]
   \<and> actor_table (db_after demo_store (delete_film demo_store 12)) = [tom, meg]"
  using delete_film_no_cascade[of demo_store 12] delete_film_no_cascade[of demo_store 99]
  by (simp add: demo_defs get_film_def db_after_def)

theorem delete_film_by_actor_one_row_witness:
  "valid_store demo_store
   \<and> get_actor demo_store 77 = None
   \<and> is_NotFound (fst (delete_film_by_actor demo_store 12 77))
   \<and> db_after demo_store (delete_film_by_actor demo_store 12 77) = demo_store
   \<and> get_actor demo_store 2 \<noteq> None \<and> select_film_actor demo_store 11 2 = None
   \<and> is_NotFound (fst (delete_film_by_actor demo_store 11 2))
   \<and> db_after demo_store (delete_film_by_actor demo_store 11 2) = demo_store
   \<and> get_actor demo_store 1 = Some tom
   \<and> select_film_actor demo_store 12 1 = Some \<lparr>id_film_actor = 22, film_id = 12, actor_id = 1\<rparr>
   \<and> film_actor_table (db_after demo_store (delete_film_by_actor demo_store 12 1)) =
       [\<lparr>id_film_actor = 21, film_id = 11, actor_id = 1\<rparr>,
        \<lparr>id_film_actor = 23, film_id = 12, actor_id = 2\<rparr>]
   \<and> film_table (db_after demo_store (delete_film_by_actor demo_store 12 1)) =
       [cast_away, sleepless]
   \<and> actor_table (db_after demo_store (delete_film_by_actor demo_store 12 1)) = [tom, meg]"
proof -
  have a: "get_actor demo_store 77 = None" "get_actor demo_store 2 \<noteq> None"
       "get_actor demo_store 1 = Some tom"
    by (simp_all add: demo_defs get_actor_def)
  have r: "select_film_actor demo_store 11 2 = None"
     "select_film_actor demo_store 12 1 = Some \<lparr>id_film_actor = 22, film_id = 12, actor_id = 1\<rparr>"
    by (simp_all add: demo_defs select_film_actor_def)
  show ?thesis
    using delete_film_by_actor_one_row[of demo_store 77 12]
      delete_film_by_actor_one_row[of demo_store 2 11]
      delete_film_by_actor_one_row[of demo_store 1 12]
      valid_demo_store a r
    by (simp add: demo_store_def db_after_def)
qed

theorem update_conflict_rule_witness:
  "get_actor demo_store 77 = None \<and> get_film demo_store 99 = None
   \<and> is_NotFound (fst (update_actor demo_store 77 ''Tom'' ''Hanks'' 60))
   \<and> is_NotFound (fst (update_film demo_store 99 ''Big'' ''A boy'' 1988))
   \<and> get_actor demo_store 1 = Some tom \<and> get_film demo_store 11 = Some cast_away
   \<and> is_Conflict (fst (update_actor demo_store 1 ''Tom'' ''Hanks'' 60))
   \<and> is_Conflict (fst (update_film demo_store 11 ''Cast Away'' ''Another'' 2000))
   \<and> fst (update_actor demo_store 2 ''NewJohn'' ''NewDoe'' 35)
       = Inr (Redirect_actor_detail ''NewJohn'' ''NewDoe'' 35)
   \<and> get_actor (db_after demo_store (update_actor demo_store 2 ''NewJohn'' ''NewDoe'' 35)) 2
       = Some \<lparr>id_actor = 2, first_name = ''NewJohn'', last_name = ''NewDoe'', age = 35\<rparr>
   \<and> fst (update_film demo_store 12 ''B3ig'' ''A story'' 1978)
       = Inr (Redirect_film_detail ''B3ig'' 1978)
   \<and> get_film (db_after demo_store (update_film demo_store 12 ''B3ig'' ''A story'' 1978)) 12
       = Some \<lparr>id_film = 12, title = ''B3ig'', description = ''A story'', year = 1978\<rparr>"
proof -
  have g: "get_actor demo_store 77 = None" "get_film demo_store 99 = None"
    "get_actor demo_store 1 = Some tom" "get_film demo_store 11 = Some cast_away"
    "get_actor demo_store 2 = Some meg" "get_film demo_store 12 = Some sleepless"
    by (simp_all add: demo_defs get_actor_def get_film_def)
  have ok1: "fst (update_actor demo_store 2 ''NewJohn'' ''NewDoe'' 35)
       = Inr (Redirect_actor_detail ''NewJohn'' ''NewDoe'' 35)"
    by (rule update_actor_succeeds[OF g(5)])
       (simp_all add: select_actor_None_iff demo_defs check_actor_def)
  have ok2: "fst (update_film demo_store 12 ''B3ig'' ''A story'' 1978)
       = Inr (Redirect_film_detail ''B3ig'' 1978)"
    by (rule update_film_succeeds[OF g(6)])
       (simp_all add: select_film_None_iff demo_defs check_film_def)
  show ?thesis
    using update_conflict_rule[of demo_store 77 "''Tom''" "''Hanks''" 60 99 "''Big''" "''A boy''" 1988]
      update_conflict_rule[of demo_store 1 "''Tom''" "''Hanks''" 60 11 "''Cast Away''" "''Another''" 2000]
      update_conflict_rule[of demo_store 2 "''NewJohn''" "''NewDoe''" 35 12 "''B3ig''" "''A story''" 1978]
      g ok1 ok2
    by (simp add: demo_defs db_after_def)
qed

lemma get_actor_unique_row:
  assumes "valid_store s" "get_actor s aid \<noteq> None"
  shows "length (filter (\<lambda>a. id_actor a = aid) (actor_table s)) = 1"
proof -
  from assms(2) obtain a where a: "get_actor s aid = Some a" by auto
  from assms(1) have d: "distinct (map id_actor (actor_table s))" by (simp add: valid_store_def)
  from filter_key_single[OF d get_actor_mem[OF a]] get_actor_id[OF a]
  show ?thesis by simp
qed

lemma get_film_unique_row:
  assumes "valid_store s" "get_film s fid \<noteq> None"
  shows "length (filter (\<lambda>f. id_film f = fid) (film_table s)) = 1"
proof -
  from assms(2) obtain f where f: "get_film s fid = Some f" by auto
  from assms(1) have d: "distinct (map id_film (film_table s))" by (simp add: valid_store_def)
  from filter_key_single[OF d get_film_mem[OF f]] get_film_id[OF f]
  show ?thesis by simp
qed

text \<open>
  Claim C10. A successful \<^verbatim>\<open>update_actor\<close> leaves the film and association tables as
  they were and the actor table row by row as it was, except that a row whose id is the
  given one has its first name, last name and age replaced and keeps its id; in a
  well-formed store that is one row. \<^verbatim>\<open>update_film\<close> likewise, with title, description
  and year.
\<close>

theorem update_touches_one_record:
  "(\<forall>r. fst (update_actor s aid fn ln ag) = Inr r \<longrightarrow>
      film_table (db_after s (update_actor s aid fn ln ag)) = film_table s
    \<and> film_actor_table (db_after s (update_actor s aid fn ln ag)) = film_actor_table s
    \<and> length (actor_table (db_after s (update_actor s aid fn ln ag))) = length (actor_table s)
    \<and> (\<forall>i<length (actor_table s).
          (id_actor (actor_table s ! i) \<noteq> aid \<longrightarrow>
             actor_table (db_after s (update_actor s aid fn ln ag)) ! i = actor_table s ! i)
        \<and> (id_actor (actor_table s ! i) = aid \<longrightarrow>
             actor_table (db_after s (update_actor s aid fn ln ag)) ! i =
               (actor_table s ! i)\<lparr>first_name := fn, last_name := ln, age := ag\<rparr>
           \<and> id_actor (actor_table (db_after s (update_actor s aid fn ln ag)) ! i) = aid))
    \<and> (valid_store s \<longrightarrow> length (filter (\<lambda>a. id_actor a = aid) (actor_table s)) = 1))
   \<and> (\<forall>r. fst (update_film s fid t d y) = Inr r \<longrightarrow>
      actor_table (db_after s (update_film s fid t d y)) = actor_table s
    \<and> film_actor_table (db_after s (update_film s fid t d y)) = film_actor_table s
    \<and> length (film_table (db_after s (update_film s fid t d y))) = length (film_table s)
    \<and> (\<forall>i<length (film_table s).
          (id_film (film_table s ! i) \<noteq> fid \<longrightarrow>
             film_table (db_after s (update_film s fid t d y)) ! i = film_table s ! i)
        \<and> (id_film (film_table s ! i) = fid \<longrightarrow>
             film_table (db_after s (update_film s fid t d y)) ! i =
               (film_table s ! i)\<lparr>title := t, description := d, year := y\<rparr>
           \<and> id_film (film_table (db_after s (update_film s fid t d y)) ! i) = fid))
    \<and> (valid_store s \<longrightarrow> length (filter (\<lambda>f. id_film f = fid) (film_table s)) = 1))"
proof (intro conjI allI impI)
  fix r
  assume ok: "fst (update_actor s aid fn ln ag) = Inr r"
  note eq = update_actor_Inr[OF ok, THEN conjunct1]
  show "film_table (db_after s (update_actor s aid fn ln ag)) = film_table s"
       "film_actor_table (db_after s (update_actor s aid fn ln ag)) = film_actor_table s"
       "length (actor_table (db_after s (update_actor s aid fn ln ag))) = length (actor_table s)"
    by (simp_all add: eq db_after_def)
  show "length (filter (\<lambda>a. id_actor a = aid) (actor_table s)) = 1" if "valid_store s"
    using get_actor_unique_row[OF that] update_actor_Inr[OF ok] by simp
  fix i
  assume i: "i < length (actor_table s)"
  show "actor_table (db_after s (update_actor s aid fn ln ag)) ! i = actor_table s ! i"
    if "id_actor (actor_table s ! i) \<noteq> aid"
    using that i by (simp add: eq db_after_def)
  show "actor_table (db_after s (update_actor s aid fn ln ag)) ! i =
               (actor_table s ! i)\<lparr>first_name := fn, last_name := ln, age := ag\<rparr>"
       "id_actor (actor_table (db_after s (update_actor s aid fn ln ag)) ! i) = aid"
    if "id_actor (actor_table s ! i) = aid"
    using that i by (simp_all add: eq db_after_def)
next
  fix r
  assume ok: "fst (update_film s fid t d y) = Inr r"
  note eq = update_film_Inr[OF ok, THEN conjunct1]
  show "actor_table (db_after s (update_film s fid t d y)) = actor_table s"
       "film_actor_table (db_after s (update_film s fid t d y)) = film_actor_table s"
       "length (film_table (db_after s (update_film s fid t d y))) = length (film_table s)"
    by (simp_all add: eq db_after_def)
  show "length (filter (\<lambda>f. id_film f = fid) (film_table s)) = 1" if "valid_store s"
    using get_film_unique_row[OF that] update_film_Inr[OF ok] by simp
  fix i
  assume i: "i < length (film_table s)"
  show "film_table (db_after s (update_film s fid t d y)) ! i = film_table s ! i"
    if "id_film (film_table s ! i) \<noteq> fid"
    using that i by (simp add: eq db_after_def)
  show "film_table (db_after s (update_film s fid t d y)) ! i =
               (film_table s ! i)\<lparr>title := t, description := d, year := y\<rparr>"
       "id_film (film_table (db_after s (update_film s fid t d y)) ! i) = fid"
    if "id_film (film_table s ! i) = fid"
    using that i by (simp_all add: eq db_after_def)
qed

theorem update_touches_one_record_witness:
  "valid_store demo_store
   \<and> fst (update_actor demo_store 2 ''NewJohn'' ''NewDoe'' 35)
       = Inr (Redirect_actor_detail ''NewJohn'' ''NewDoe'' 35)
   \<and> fst (update_film demo_store 12 ''B3ig'' ''A story'' 1978)
       = Inr (Redirect_film_detail ''B3ig'' 1978)
   \<and> (0::nat) < length (actor_table demo_store) \<and> (1::nat) < length (actor_table demo_store)
   \<and> (0::nat) < length (film_table demo_store) \<and> (1::nat) < length (film_table demo_store)
   \<and> actor_table (db_after demo_store (update_actor demo_store 2 ''NewJohn'' ''NewDoe'' 35)) ! 0
       = tom
   \<and> actor_table (db_after demo_store (update_actor demo_store 2 ''NewJohn'' ''NewDoe'' 35)) ! 1
       = \<lparr>id_actor = 2, first_name = ''NewJohn'', last_name = ''NewDoe'', age = 35\<rparr>
   \<and> film_table (db_after demo_store (update_actor demo_store 2 ''NewJohn'' ''NewDoe'' 35))
       = film_table demo_store
   \<and> film_table (db_after demo_store (update_film demo_store 12 ''B3ig'' ''A story'' 1978)) ! 0
       = cast_away
   \<and> film_table (db_after demo_store (update_film demo_store 12 ''B3ig'' ''A story'' 1978)) ! 1
       = \<lparr>id_film = 12, title = ''B3ig'', description = ''A story'', year = 1978\<rparr>
   \<and> film_actor_table (db_after demo_store (update_film demo_store 12 ''B3ig'' ''A story'' 1978))
       = film_actor_table demo_store"
proof -
  have g: "get_actor demo_store 2 = Some meg" "get_film demo_store 12 = Some sleepless"
    by (simp_all add: demo_defs get_actor_def get_film_def)
  have ok1: "fst (update_actor demo_store 2 ''NewJohn'' ''NewDoe'' 35)
       = Inr (Redirect_actor_detail ''NewJohn'' ''NewDoe'' 35)"
    by (rule update_actor_succeeds[OF g(1)])
       (simp_all add: select_actor_None_iff demo_defs check_actor_def)
  have ok2: "fst (update_film demo_store 12 ''B3ig'' ''A story'' 1978)
       = Inr (Redirect_film_detail ''B3ig'' 1978)"
    by (rule update_film_succeeds[OF g(2)])
       (simp_all add: select_film_None_iff demo_defs check_film_def)
  have len: "length (actor_table demo_store) = 2" "length (film_table demo_store) = 2"
    "actor_table demo_store ! 0 = tom" "actor_table demo_store ! 1 = meg"
    "film_table demo_store ! 0 = cast_away" "film_table demo_store ! 1 = sleepless"
    "actor_table demo_store ! Suc 0 = meg" "film_table demo_store ! Suc 0 = sleepless"
    by (simp_all add: demo_store_def)
  note t = update_touches_one_record[of demo_store 2 "''NewJohn''" "''NewDoe''" 35
              12 "''B3ig''" "''A story''" 1978, unfolded ok1 ok2 len]
  from t have a: "\<forall>i<2. (id_actor (actor_table demo_store ! i) \<noteq> 2 \<longrightarrow>
             actor_table (db_after demo_store (update_actor demo_store 2 ''NewJohn'' ''NewDoe'' 35)) ! i = actor_table demo_store ! i)
        \<and> (id_actor (actor_table demo_store ! i) = 2 \<longrightarrow>
             actor_table (db_after demo_store (update_actor demo_store 2 ''NewJohn'' ''NewDoe'' 35)) ! i =
               (actor_table demo_store ! i)\<lparr>first_name := ''NewJohn'', last_name := ''NewDoe'', age := 35\<rparr>)"
    by simp
  from t have f: "\<forall>i<2. (id_film (film_table demo_store ! i) \<noteq> 12 \<longrightarrow>
             film_table (db_after demo_store (update_film demo_store 12 ''B3ig'' ''A story'' 1978)) ! i = film_table demo_store ! i)
        \<and> (id_film (film_table demo_store ! i) = 12 \<longrightarrow>
             film_table (db_after demo_store (update_film demo_store 12 ''B3ig'' ''A story'' 1978)) ! i =
               (film_table demo_store ! i)\<lparr>title := ''B3ig'', description := ''A story'', year := 1978\<rparr>)"
    by simp
  from a[rule_format, of 0] a[rule_format, of 1] f[rule_format, of 0] f[rule_format, of 1]
  have rows: "actor_table (db_after demo_store (update_actor demo_store 2 ''NewJohn'' ''NewDoe'' 35)) ! 0
       = tom"
    "actor_table (db_after demo_store (update_actor demo_store 2 ''NewJohn'' ''NewDoe'' 35)) ! 1
       = \<lparr>id_actor = 2, first_name = ''NewJohn'', last_name = ''NewDoe'', age = 35\<rparr>"
    "film_table (db_after demo_store (update_film demo_store 12 ''B3ig'' ''A story'' 1978)) ! 0
       = cast_away"
    "film_table (db_after demo_store (update_film demo_store 12 ''B3ig'' ''A story'' 1978)) ! 1
       = \<lparr>id_film = 12, title = ''B3ig'', description = ''A story'', year = 1978\<rparr>"
    by (simp_all add: len tom_def meg_def cast_away_def sleepless_def)
  from t rows ok1 ok2 len valid_demo_store show ?thesis by simp
qed

section \<open>Deleting an actor\<close>

lemma valid_store_film_of:
  assumes "valid_store s" "r \<in> set (film_actor_table s)"
  shows "\<exists>f. film_of s r = Some f \<and> id_film f = film_id r \<and> f \<in> set (film_table s)"
proof -
  from assms have "get_film s (film_id r) \<noteq> None"
    by (auto simp: valid_store_def list_all_iff)
  then obtain f where "get_film s (film_id r) = Some f" by auto
  then show ?thesis
    using get_film_id get_film_mem by (auto simp: film_of_def)
qed

lemma census_marked:
  "\<forall>r\<in>set rs. film_of s r \<noteq> None \<Longrightarrow> census s rs acc = Inr (acc @ marked s rs)"
proof (induction rs arbitrary: acc)
  case Nil
  then show ?case by (simp add: marked_def)
next
  case (Cons r rs)
  then obtain f where f: "film_of s r = Some f" by auto
  from Cons.prems have "\<forall>x\<in>set rs. film_of s x \<noteq> None" by simp
  from Cons.IH[OF this] f show ?case by (simp add: marked_def)
qed

lemma marked_mem:
  "f \<in> set (marked s rs) \<longleftrightarrow>
     (\<exists>r\<in>set rs. film_of s r = Some f \<and> length (film_people s f) = 1)"
  by (induction rs) (auto simp: marked_def split: option.splits if_splits)

lemma delete_films_all:
  "\<forall>f\<in>set fs. \<not> list_ex (\<lambda>r. film_id r = id_film f) (film_actor_table s) \<Longrightarrow>
   delete_films s fs =
     Inr (s\<lparr>film_table := filter (\<lambda>x. id_film x \<notin> id_film ` set fs) (film_table s)\<rparr>)"
proof (induction fs arbitrary: s)
  case Nil
  then show ?case by simp
next
  case (Cons f fs)
  let ?s1 = "s\<lparr>film_table := filter (\<lambda>x. id_film x \<noteq> id_film f) (film_table s)\<rparr>"
  from Cons.prems have 1: "delete_film_row s f = Inr ?s1"
    by (simp add: delete_film_row_def)
  from Cons.prems
  have "\<forall>g\<in>set fs. \<not> list_ex (\<lambda>r. film_id r = id_film g) (film_actor_table ?s1)"
    by simp
  from Cons.IH[OF this] 1 show ?case
    by (simp add: conj_commute)
qed

lemma marked_sole:
  assumes "f \<in> set (marked s (actor_films s a))" "r \<in> set (film_actor_table s)"
    "film_id r = id_film f"
  shows "actor_id r = id_actor a"
proof -
  from assms(1) obtain q where q: "q \<in> set (actor_films s a)" "film_of s q = Some f"
    and one: "length (film_people s f) = 1"
    by (auto simp: marked_mem)
  from q have qf: "film_id q = id_film f" "actor_id q = id_actor a" "q \<in> set (film_actor_table s)"
    using get_film_id by (auto simp: film_of_def actor_films_def)
  from one obtain z where z: "film_people s f = [z]"
    by (cases "film_people s f") auto
  from qf have "q \<in> set (film_people s f)" by (simp add: film_people_def)
  moreover from assms(2,3) have "r \<in> set (film_people s f)" by (simp add: film_people_def)
  ultimately have "r = q" using z by simp
  with qf show ?thesis by simp
qed

lemma marked_ids:
  assumes "valid_store s"
  shows "id_film x \<in> id_film ` set (marked s (actor_films s a)) \<longleftrightarrow>
           length (film_people s x) = 1
         \<and> (\<exists>r\<in>set (actor_films s a). film_id r = id_film x)"
proof
  assume "id_film x \<in> id_film ` set (marked s (actor_films s a))"
  then obtain f where f: "f \<in> set (marked s (actor_films s a))" "id_film f = id_film x"
    by auto
  then obtain q where q: "q \<in> set (actor_films s a)" "film_of s q = Some f"
    and one: "length (film_people s f) = 1"
    by (auto simp: marked_mem)
  from q(2) have "film_id q = id_film f" using get_film_id by (auto simp: film_of_def)
  with f(2) q(1) one show "length (film_people s x) = 1
         \<and> (\<exists>r\<in>set (actor_films s a). film_id r = id_film x)"
    by (auto simp: film_people_def)
next
  assume h: "length (film_people s x) = 1
         \<and> (\<exists>r\<in>set (actor_films s a). film_id r = id_film x)"
  then obtain r where r: "r \<in> set (actor_films s a)" "film_id r = id_film x" by auto
  then have "r \<in> set (film_actor_table s)" by (simp add: actor_films_def)
  from valid_store_film_of[OF assms this] obtain f
    where f: "film_of s r = Some f" "id_film f = film_id r" by auto
  with h r have "length (film_people s f) = 1" by (simp add: film_people_def)
  with f r have "f \<in> set (marked s (actor_films s a))" by (auto simp: marked_mem)
  with f r show "id_film x \<in> id_film ` set (marked s (actor_films s a))"
    by (metis image_eqI)
qed

lemma delete_actor_found:
  assumes v: "valid_store s" and a: "get_actor s aid = Some a"
  shows "delete_actor s aid =
     (Inr Redirect_actors_list,
      [s\<lparr>film_actor_table := filter (\<lambda>r. actor_id r \<noteq> aid) (film_actor_table s),
         film_table :=
           filter (\<lambda>x. \<not> (length (film_people s x) = 1
                          \<and> (\<exists>r\<in>set (actor_films s a). film_id r = id_film x)))
             (film_table s),
         actor_table := filter (\<lambda>x. id_actor x \<noteq> aid) (actor_table s)\<rparr>])"
proof -
  have ida: "id_actor a = aid" by (rule get_actor_id[OF a])
  let ?m = "marked s (actor_films s a)"
  let ?s1 = "delete_film_actor_where_actor s (id_actor a)"
  have "\<forall>r\<in>set (actor_films s a). film_of s r \<noteq> None"
    using valid_store_film_of[OF v] by (auto simp: actor_films_def)
  from census_marked[OF this] have c: "census s (actor_films s a) [] = Inr ?m" by simp
  have "\<forall>f\<in>set ?m. \<not> list_ex (\<lambda>r. film_id r = id_film f) (film_actor_table ?s1)"
    using marked_sole by (auto simp: delete_film_actor_where_actor_def list_ex_iff)
  note d = delete_films_all[OF this, unfolded delete_film_actor_where_actor_def ida]
  show ?thesis
    unfolding delete_actor_def
    by (simp add: a c d delete_actor_row_def list_ex_iff marked_ids[OF v] ida
          delete_film_actor_where_actor_def)
qed

lemma distinct_pair_filter:
  "distinct (map (\<lambda>r. (k1 r, k2 r)) xs) \<Longrightarrow> distinct (map k2 (filter (\<lambda>r. k1 r = c) xs))"
  by (induction xs) (auto simp: image_iff)

lemma distinct_singleton_set: "distinct ys \<Longrightarrow> set ys = {b} \<Longrightarrow> ys = [b]"
proof -
  assume d: "distinct ys" and s: "set ys = {b}"
  from d s have "length ys = 1" using distinct_card[of ys] by simp
  then obtain z where "ys = [z]" by (cases ys) auto
  with s show ?thesis by simp
qed

lemma find_filter_distinct:
  assumes "distinct (map k xs)" "x \<in> set xs" "Q x"
  shows "find (\<lambda>y. k y = k x) (filter Q xs) = Some x"
proof -
  from assms(1) have "distinct (map k (filter Q xs))" by (rule distinct_map_filter)
  moreover from assms(2,3) have "x \<in> set (filter Q xs)" by simp
  ultimately show ?thesis by (rule find_distinct_key)
qed

lemma census_exact:
  assumes v: "valid_store s"
  shows "\<exists>m. census s (actor_films s a) [] = Inr m
           \<and> set m = {f \<in> set (film_table s). length (film_people s f) = 1
                        \<and> (\<exists>r\<in>set (actor_films s a). film_id r = id_film f)}"
proof -
  have d: "distinct (map id_film (film_table s))" using v by (simp add: valid_store_def)
  have nn: "\<forall>r\<in>set (actor_films s a). film_of s r \<noteq> None"
    using valid_store_film_of[OF v] by (auto simp: actor_films_def)
  have c: "census s (actor_films s a) [] = Inr (marked s (actor_films s a))"
    using census_marked[OF nn] by simp
  have "set (marked s (actor_films s a)) =
          {f \<in> set (film_table s). length (film_people s f) = 1
                        \<and> (\<exists>r\<in>set (actor_films s a). film_id r = id_film f)}"
  proof (intro set_eqI iffI)
    fix f assume "f \<in> set (marked s (actor_films s a))"
    then obtain q where q: "q \<in> set (actor_films s a)" "film_of s q = Some f"
      and one: "length (film_people s f) = 1"
      by (auto simp: marked_mem)
    from q(2) have "film_id q = id_film f" "f \<in> set (film_table s)"
      using get_film_id get_film_mem by (auto simp: film_of_def)
    with q one show "f \<in> {f \<in> set (film_table s). length (film_people s f) = 1
                        \<and> (\<exists>r\<in>set (actor_films s a). film_id r = id_film f)}"
      by auto
  next
    fix f assume "f \<in> {f \<in> set (film_table s). length (film_people s f) = 1
                        \<and> (\<exists>r\<in>set (actor_films s a). film_id r = id_film f)}"
    then obtain r where f: "f \<in> set (film_table s)" "length (film_people s f) = 1"
      "r \<in> set (actor_films s a)" "film_id r = id_film f" by auto
    from find_distinct_key[OF d f(1)] f(4) have "film_of s r = Some f"
      by (simp add: film_of_def get_film_def)
    with f show "f \<in> set (marked s (actor_films s a))" by (auto simp: marked_mem)
  qed
  with c show ?thesis by blast
qed

lemma delete_actor_scenario:
  assumes v: "valid_store s" and a: "get_actor s aid = Some a" and b: "get_actor s bid = Some b"
    and ne: "aid \<noteq> bid"
    and f1: "get_film s fid1 = Some f1" and f2: "get_film s fid2 = Some f2"
    and p1: "map actor_id (film_people s f1) = [aid]"
    and p2: "set (map actor_id (film_people s f2)) = {aid, bid}"
  shows "get_film (db_after s (delete_actor s aid)) fid1 = None"
    "get_actor (db_after s (delete_actor s aid)) aid = None"
    "get_film (db_after s (delete_actor s aid)) fid2 = Some f2"
    "map actor_id (film_people (db_after s (delete_actor s aid)) f2) = [bid]"
    "get_actor (db_after s (delete_actor s aid)) bid = Some b"
proof -
  let ?sole = "\<lambda>x. length (film_people s x) = 1
                          \<and> (\<exists>r\<in>set (actor_films s a). film_id r = id_film x)"
  let ?s' = "s\<lparr>film_actor_table := filter (\<lambda>r. actor_id r \<noteq> aid) (film_actor_table s),
         film_table := filter (\<lambda>x. \<not> ?sole x) (film_table s),
         actor_table := filter (\<lambda>x. id_actor x \<noteq> aid) (actor_table s)\<rparr>"
  have after: "db_after s (delete_actor s aid) = ?s'"
    by (simp add: delete_actor_found[OF v a] db_after_def)
  have ida: "id_actor a = aid" and idb: "id_actor b = bid"
    using get_actor_id a b by auto
  have idf1: "id_film f1 = fid1" and idf2: "id_film f2 = fid2"
    using get_film_id f1 f2 by auto
  have da: "distinct (map id_actor (actor_table s))"
    and df: "distinct (map id_film (film_table s))"
    and dp: "distinct (map (\<lambda>r. (film_id r, actor_id r)) (film_actor_table s))"
    using v by (simp_all add: valid_store_def)
  from p1 obtain r0 where r0: "film_people s f1 = [r0]" "actor_id r0 = aid" by auto
  then have "r0 \<in> set (film_people s f1)" by simp
  then have r0m: "r0 \<in> set (actor_films s a)" "film_id r0 = fid1"
    using r0(2) ida idf1 by (auto simp: film_people_def actor_films_def)
  have sole1: "?sole x" if "id_film x = fid1" for x
  proof -
    from that idf1 have "film_people s x = film_people s f1" by (simp add: film_people_def)
    with r0 r0m that show ?thesis by auto
  qed
  show "get_film (db_after s (delete_actor s aid)) fid1 = None"
    unfolding after using sole1 by (auto simp: get_film_def find_None_iff)
  show "get_actor (db_after s (delete_actor s aid)) aid = None"
    unfolding after by (simp add: get_actor_def find_None_iff)
  have "length (film_people s f2) \<noteq> 1"
  proof
    assume "length (film_people s f2) = 1"
    then obtain z where "film_people s f2 = [z]" by (cases "film_people s f2") auto
    with p2 ne show False by (auto simp: doubleton_eq_iff)
  qed
  then have ns: "\<not> ?sole f2" by simp
  from find_filter_distinct[OF df get_film_mem[OF f2], of "\<lambda>x. \<not> ?sole x", OF ns] idf2
  show "get_film (db_after s (delete_actor s aid)) fid2 = Some f2"
    unfolding after by (simp add: get_film_def)
  have "id_actor b \<noteq> aid" using idb ne by simp
  from find_filter_distinct[OF da get_actor_mem[OF b], of "\<lambda>x. id_actor x \<noteq> aid", OF this] idb
  show "get_actor (db_after s (delete_actor s aid)) bid = Some b"
    unfolding after by (simp add: get_actor_def)
  have "film_people ?s' f2 = filter (\<lambda>r. actor_id r \<noteq> aid) (film_people s f2)"
    by (auto simp: film_people_def intro: filter_cong)
  then have m: "map actor_id (film_people ?s' f2)
               = filter (\<lambda>i. i \<noteq> aid) (map actor_id (film_people s f2))"
    by (simp add: filter_map comp_def)
  have "distinct (map actor_id (film_people s f2))"
    unfolding film_people_def by (rule distinct_pair_filter[OF dp])
  then have "distinct (filter (\<lambda>i. i \<noteq> aid) (map actor_id (film_people s f2)))" by simp
  moreover have "set (filter (\<lambda>i. i \<noteq> aid) (map actor_id (film_people s f2))) = {bid}"
    using p2 ne by auto
  ultimately have "filter (\<lambda>i. i \<noteq> aid) (map actor_id (film_people s f2)) = [bid]"
    by (rule distinct_singleton_set)
  with m show "map actor_id (film_people (db_after s (delete_actor s aid)) f2) = [bid]"
    unfolding after by simp
qed

text \<open>
  Claim C1. In a well-formed store, \<^verbatim>\<open>delete_actor\<close> on an existing actor first collects
  exactly the films linked to the actor whose \<^verbatim>\<open>people\<close> has length 1, and commits once:
  the association rows of the actor, the collected films and the actor are gone, and
  nothing else is. So when the actor \<open>aid\<close> is the only actor of film \<open>fid1\<close> and
  shares film \<open>fid2\<close> with actor \<open>bid\<close>, afterwards \<open>fid1\<close> and \<open>aid\<close> do not
  resolve, \<open>fid2\<close> still does, and its only association is with \<open>bid\<close>.
\<close>

theorem delete_actor_two_phase:
  "(\<forall>a. valid_store s \<and> get_actor s aid = Some a \<longrightarrow>
      (\<exists>m. census s (actor_films s a) [] = Inr m
          \<and> set m = {f \<in> set (film_table s). length (film_people s f) = 1
                        \<and> (\<exists>r\<in>set (actor_films s a). film_id r = id_film f)})
    \<and> delete_actor s aid =
        (Inr Redirect_actors_list,
         [s\<lparr>film_actor_table := filter (\<lambda>r. actor_id r \<noteq> aid) (film_actor_table s),
            film_table :=
              filter (\<lambda>x. \<not> (length (film_people s x) = 1
                             \<and> (\<exists>r\<in>set (actor_films s a). film_id r = id_film x)))
                (film_table s),
            actor_table := filter (\<lambda>x. id_actor x \<noteq> aid) (actor_table s)\<rparr>]))
   \<and> (\<forall>a b f1 f2.
        valid_store s \<and> get_actor s aid = Some a \<and> get_actor s bid = Some b \<and> aid \<noteq> bid
        \<and> get_film s fid1 = Some f1 \<and> get_film s fid2 = Some f2
        \<and> map actor_id (film_people s f1) = [aid]
        \<and> set (map actor_id (film_people s f2)) = {aid, bid} \<longrightarrow>
          get_film (db_after s (delete_actor s aid)) fid1 = None
        \<and> get_actor (db_after s (delete_actor s aid)) aid = None
        \<and> get_film (db_after s (delete_actor s aid)) fid2 = Some f2
        \<and> map actor_id (film_people (db_after s (delete_actor s aid)) f2) = [bid]
        \<and> get_actor (db_after s (delete_actor s aid)) bid = Some b)"
proof (intro conjI allI impI)
  fix a
  assume h: "valid_store s \<and> get_actor s aid = Some a"
  then have v: "valid_store s" and a: "get_actor s aid = Some a" by simp_all
  show "\<exists>m. census s (actor_films s a) [] = Inr m
          \<and> set m = {f \<in> set (film_table s). length (film_people s f) = 1
                        \<and> (\<exists>r\<in>set (actor_films s a). film_id r = id_film f)}"
    by (rule census_exact[OF v])
  show "delete_actor s aid =
        (Inr Redirect_actors_list,
         [s\<lparr>film_actor_table := filter (\<lambda>r. actor_id r \<noteq> aid) (film_actor_table s),
            film_table :=
              filter (\<lambda>x. \<not> (length (film_people s x) = 1
                             \<and> (\<exists>r\<in>set (actor_films s a). film_id r = id_film x)))
                (film_table s),
            actor_table := filter (\<lambda>x. id_actor x \<noteq> aid) (actor_table s)\<rparr>])"
    by (rule delete_actor_found[OF v a])
next
  fix a b f1 f2
  assume h: "valid_store s \<and> get_actor s aid = Some a \<and> get_actor s bid = Some b \<and> aid \<noteq> bid
        \<and> get_film s fid1 = Some f1 \<and> get_film s fid2 = Some f2
        \<and> map actor_id (film_people s f1) = [aid]
        \<and> set (map actor_id (film_people s f2)) = {aid, bid}"
  then have v: "valid_store s" and a: "get_actor s aid = Some a"
    and b: "get_actor s bid = Some b" and ne: "aid \<noteq> bid"
    and f1: "get_film s fid1 = Some f1" and f2: "get_film s fid2 = Some f2"
    and p1: "map actor_id (film_people s f1) = [aid]"
    and p2: "set (map actor_id (film_people s f2)) = {aid, bid}"
    by simp_all
  note sc = delete_actor_scenario[OF v a b ne f1 f2 p1 p2]
  show "get_film (db_after s (delete_actor s aid)) fid1 = None" by (rule sc(1))
  show "get_actor (db_after s (delete_actor s aid)) aid = None" by (rule sc(2))
  show "get_film (db_after s (delete_actor s aid)) fid2 = Some f2" by (rule sc(3))
  show "map actor_id (film_people (db_after s (delete_actor s aid)) f2) = [bid]" by (rule sc(4))
  show "get_actor (db_after s (delete_actor s aid)) bid = Some b" by (rule sc(5))
qed

theorem delete_actor_two_phase_witness:
  "valid_store demo_store \<and> get_actor demo_store 1 = Some tom
   \<and> get_actor demo_store 2 = Some meg \<and> (1::uuid) \<noteq> 2
   \<and> get_film demo_store 11 = Some cast_away \<and> get_film demo_store 12 = Some sleepless
   \<and> map actor_id (film_people demo_store cast_away) = [1]
   \<and> set (map actor_id (film_people demo_store sleepless)) = {1, 2}
   \<and> delete_actor demo_store 1 =
       (Inr Redirect_actors_list,
        [\<lparr>actor_table = [meg], film_table = [sleepless],
          film_actor_table = [\<lparr>id_film_actor = 23, film_id = 12, actor_id = 2\<rparr>]\<rparr>])
   \<and> get_film (db_after demo_store (delete_actor demo_store 1)) 11 = None
   \<and> get_actor (db_after demo_store (delete_actor demo_store 1)) 1 = None
   \<and> get_film (db_after demo_store (delete_actor demo_store 1)) 12 = Some sleepless
   \<and> map actor_id (film_people (db_after demo_store (delete_actor demo_store 1)) sleepless) = [2]
   \<and> get_actor (db_after demo_store (delete_actor demo_store 1)) 2 = Some meg"
proof -
  have g: "get_actor demo_store 1 = Some tom" "get_actor demo_store 2 = Some meg"
    "get_film demo_store 11 = Some cast_away" "get_film demo_store 12 = Some sleepless"
    by (simp_all add: demo_defs get_actor_def get_film_def)
  have p: "map actor_id (film_people demo_store cast_away) = [1]"
    "set (map actor_id (film_people demo_store sleepless)) = {1, 2}"
    by (simp_all add: demo_defs film_people_def)
  have e: "\<lparr>actor_table = [meg], film_table = [sleepless],
          film_actor_table = [\<lparr>id_film_actor = 23, film_id = 12, actor_id = 2\<rparr>]\<rparr>
      = demo_store\<lparr>film_actor_table := filter (\<lambda>r. actor_id r \<noteq> 1) (film_actor_table demo_store),
            film_table :=
              filter (\<lambda>x. \<not> (length (film_people demo_store x) = 1
                             \<and> (\<exists>r\<in>set (actor_films demo_store tom). film_id r = id_film x)))
                (film_table demo_store),
            actor_table := filter (\<lambda>x. id_actor x \<noteq> 1) (actor_table demo_store)\<rparr>"
    by (simp add: demo_defs film_people_def actor_films_def)
  have ne: "(1::uuid) \<noteq> 2" by simp
  note t = delete_actor_two_phase[of demo_store 1 2 11 12]
  from t[THEN conjunct1, rule_format, of tom] valid_demo_store g(1)
  have d: "delete_actor demo_store 1 =
       (Inr Redirect_actors_list,
        [\<lparr>actor_table = [meg], film_table = [sleepless],
          film_actor_table = [\<lparr>id_film_actor = 23, film_id = 12, actor_id = 2\<rparr>]\<rparr>])"
    unfolding e by simp
  from t[THEN conjunct2, rule_format, of tom meg cast_away sleepless] valid_demo_store g ne p
  have sc: "get_film (db_after demo_store (delete_actor demo_store 1)) 11 = None
   \<and> get_actor (db_after demo_store (delete_actor demo_store 1)) 1 = None
   \<and> get_film (db_after demo_store (delete_actor demo_store 1)) 12 = Some sleepless
   \<and> map actor_id (film_people (db_after demo_store (delete_actor demo_store 1)) sleepless) = [2]
   \<and> get_actor (db_after demo_store (delete_actor demo_store 1)) 2 = Some meg"
    by simp
  from valid_demo_store g ne p d sc show ?thesis by blast
qed

section \<open>Adding a film for an actor\<close>

lemma titles_of_Inr:
  "titles_of xs = Inr ts \<Longrightarrow> None \<notin> set xs \<and> set ts = {title f |f. Some f \<in> set xs}"
proof (induction xs arbitrary: ts rule: titles_of.induct)
  case 1
  then show ?case by simp
next
  case (2 fs)
  then show ?case by simp
next
  case (3 f fs)
  from "3.prems" obtain us where us: "titles_of fs = Inr us" "ts = title f # us"
    by (auto split: sum.splits)
  from "3.IH"[OF us(1)] us(2) show ?case by auto
qed

lemma titles_of_total: "None \<notin> set xs \<Longrightarrow> \<exists>ts. titles_of xs = Inr ts"
proof (induction xs rule: titles_of.induct)
  case 1
  then show ?case by simp
next
  case (2 fs)
  then show ?case by simp
next
  case (3 f fs)
  then show ?case by auto
qed

lemma film_of_linked:
  assumes "valid_store s"
  shows "{f. \<exists>r\<in>set (actor_films s a). film_of s r = Some f} =
         {f \<in> set (film_table s).
            \<exists>r\<in>set (film_actor_table s). actor_id r = id_actor a \<and> film_id r = id_film f}"
proof (intro set_eqI iffI)
  fix f assume "f \<in> {f. \<exists>r\<in>set (actor_films s a). film_of s r = Some f}"
  then obtain r where r: "r \<in> set (actor_films s a)" "film_of s r = Some f" by auto
  then have "f \<in> set (film_table s)" "film_id r = id_film f"
    using get_film_mem get_film_id by (auto simp: film_of_def)
  with r(1) show "f \<in> {f \<in> set (film_table s).
            \<exists>r\<in>set (film_actor_table s). actor_id r = id_actor a \<and> film_id r = id_film f}"
    by (auto simp: actor_films_def)
next
  fix f assume "f \<in> {f \<in> set (film_table s).
            \<exists>r\<in>set (film_actor_table s). actor_id r = id_actor a \<and> film_id r = id_film f}"
  then obtain r where f: "f \<in> set (film_table s)" and r: "r \<in> set (film_actor_table s)"
    "actor_id r = id_actor a" "film_id r = id_film f" by auto
  from assms have d: "distinct (map id_film (film_table s))" by (simp add: valid_store_def)
  from find_distinct_key[OF d f] r(3) have "film_of s r = Some f"
    by (simp add: film_of_def get_film_def)
  with r show "f \<in> {f. \<exists>r\<in>set (actor_films s a). film_of s r = Some f}"
    by (auto simp: actor_films_def)
qed

lemma actor_titles_valid:
  assumes v: "valid_store s"
  shows "\<exists>ts. actor_titles s a = Inr ts
           \<and> set ts = title ` {f \<in> set (film_table s).
                 \<exists>r\<in>set (film_actor_table s). actor_id r = id_actor a \<and> film_id r = id_film f}"
proof -
  have "None \<notin> set (map (film_of s) (actor_films s a))"
    using valid_store_film_of[OF v] by (fastforce simp: actor_films_def)
  from titles_of_total[OF this] obtain ts where ts: "actor_titles s a = Inr ts"
    by (auto simp: actor_titles_def)
  then have "set ts = {title f |f. Some f \<in> set (map (film_of s) (actor_films s a))}"
    using titles_of_Inr by (simp add: actor_titles_def)
  also have "\<dots> = title ` {f. \<exists>r\<in>set (actor_films s a). film_of s r = Some f}"
  proof (intro set_eqI iffI)
    fix x assume "x \<in> {title f |f. Some f \<in> set (map (film_of s) (actor_films s a))}"
    then obtain f r where "x = title f" "r \<in> set (actor_films s a)" "film_of s r = Some f"
      by (auto simp: image_iff dest: sym)
    then show "x \<in> title ` {f. \<exists>r\<in>set (actor_films s a). film_of s r = Some f}" by blast
  next
    fix x assume "x \<in> title ` {f. \<exists>r\<in>set (actor_films s a). film_of s r = Some f}"
    then obtain f r where "x = title f" "r \<in> set (actor_films s a)" "film_of s r = Some f"
      by auto
    then have "Some f \<in> set (map (film_of s) (actor_films s a))" by force
    with \<open>x = title f\<close>
    show "x \<in> {title f |f. Some f \<in> set (map (film_of s) (actor_films s a))}" by blast
  qed
  finally show ?thesis using ts film_of_linked[OF v] by simp
qed

lemma pair_absent_existing:
  assumes v: "valid_store s" and ts: "actor_titles s a = Inr ts" and nt: "t \<notin> set ts"
    and f: "select_film s t y = Some f"
  shows "select_film_actor s (id_film f) (id_actor a) = None"
proof (rule ccontr)
  assume "select_film_actor s (id_film f) (id_actor a) \<noteq> None"
  then obtain r where "select_film_actor s (id_film f) (id_actor a) = Some r" by auto
  from select_film_actor_D[OF this]
  have r: "r \<in> set (film_actor_table s)" "film_id r = id_film f" "actor_id r = id_actor a"
    by simp_all
  from f have ft: "f \<in> set (film_table s)" "title f = t"
    unfolding select_film_def by (auto dest: find_Some_D)
  from actor_titles_valid[OF v, of a] ts
  have "set ts = title ` {f \<in> set (film_table s).
                 \<exists>r\<in>set (film_actor_table s). actor_id r = id_actor a \<and> film_id r = id_film f}"
    by simp
  with ft r have "t \<in> set ts" by auto
  with nt show False by simp
qed

lemma pair_absent_new:
  assumes ts: "actor_titles s a = Inr ts"
    and ins: "insert_film s \<lparr>id_film = i, title = t, description = d, year = y\<rparr> = Inr s1"
  shows "select_film_actor s1 i (id_actor a) = None"
proof (rule ccontr)
  assume "select_film_actor s1 i (id_actor a) \<noteq> None"
  then obtain r where "select_film_actor s1 i (id_actor a) = Some r" by auto
  from select_film_actor_D[OF this]
  have r: "r \<in> set (film_actor_table s1)" "film_id r = i" "actor_id r = id_actor a"
    by simp_all
  from ins have g: "get_film s i = None" and s1: "film_actor_table s1 = film_actor_table s"
    by (auto simp: insert_film_def split: if_splits)
  from r s1 have "r \<in> set (actor_films s a)" by (simp add: actor_films_def)
  moreover from g r(2) have "film_of s r = None" by (simp add: film_of_def)
  ultimately have "None \<in> set (map (film_of s) (actor_films s a))" by force
  with titles_of_Inr[OF ts[unfolded actor_titles_def]] show False by simp
qed

lemma insert_film_Inl: "insert_film s f = Inl e \<Longrightarrow> e = IntegrityError"
  by (simp add: insert_film_def split: if_splits)

lemma insert_film_actor_Inl: "insert_film_actor s r = Inl e \<Longrightarrow> e = IntegrityError"
  by (simp add: insert_film_actor_def split: if_splits)

lemma find_snoc:
  "find P (xs @ [x]) = (case find P xs of None \<Rightarrow> if P x then Some x else None | Some y \<Rightarrow> Some y)"
  by (induction xs) simp_all

lemma add_film_no_actor:
  "select_actor s fn ln ag = None \<Longrightarrow>
   add_film s i j fn ln ag t d y =
     (Inl (NotFound [Lit ''Actor with name \"'', Str fn, Lit ''\" not found'']), [])"
  by (simp add: add_film_def)

lemma add_film_conflict_iff:
  assumes v: "valid_store s" and a: "select_actor s fn ln ag = Some a"
  shows "is_Conflict (fst (add_film s i j fn ln ag t d y)) \<longleftrightarrow>
           t \<in> title ` {f \<in> set (film_table s).
                 \<exists>r\<in>set (film_actor_table s). actor_id r = id_actor a \<and> film_id r = id_film f}"
proof -
  from actor_titles_valid[OF v, of a] obtain ts where ts: "actor_titles s a = Inr ts"
    and st: "set ts = title ` {f \<in> set (film_table s).
                 \<exists>r\<in>set (film_actor_table s). actor_id r = id_actor a \<and> film_id r = id_film f}"
    by blast
  have "is_Conflict (fst (add_film s i j fn ln ag t d y)) \<longleftrightarrow> t \<in> set ts"
    by (auto simp: add_film_def a ts link_film_actor_def split: option.splits sum.splits
          dest!: insert_film_Inl insert_film_actor_Inl)
  with st show ?thesis by simp
qed

lemma select_actor_mem:
  "select_actor s fn ln ag = Some a \<Longrightarrow>
     a \<in> set (actor_table s) \<and> first_name a = fn \<and> last_name a = ln \<and> age a = ag"
  unfolding select_actor_def by (drule find_Some_D) simp

lemma select_film_mem:
  "select_film s t y = Some f \<Longrightarrow> f \<in> set (film_table s) \<and> title f = t \<and> year f = y"
  unfolding select_film_def by (drule find_Some_D) simp

lemma get_actor_of_member:
  assumes "valid_store s" "a \<in> set (actor_table s)"
  shows "get_actor s (id_actor a) = Some a"
  using assms find_distinct_key[of id_actor "actor_table s" a]
  by (simp add: valid_store_def get_actor_def)

lemma get_film_of_member:
  assumes "valid_store s" "f \<in> set (film_table s)"
  shows "get_film s (id_film f) = Some f"
  using assms find_distinct_key[of id_film "film_table s" f]
  by (simp add: valid_store_def get_film_def)

lemma add_film_links_existing:
  assumes v: "valid_store s" and a: "select_actor s fn ln ag = Some a"
    and nt: "\<not> is_Conflict (fst (add_film s i j fn ln ag t d y))"
    and f: "select_film s t y = Some f"
    and j: "find (\<lambda>x. id_film_actor x = j) (film_actor_table s) = None"
  shows "add_film s i j fn ln ag t d y =
           (Inr (Redirect_film_detail t y),
            [s\<lparr>film_actor_table := film_actor_table s @
                 [\<lparr>id_film_actor = j, film_id = id_film f, actor_id = id_actor a\<rparr>]\<rparr>])"
proof -
  from actor_titles_valid[OF v, of a] obtain ts where ts: "actor_titles s a = Inr ts" by blast
  from nt have n: "t \<notin> set ts" by (auto simp: add_film_def a ts)
  have p: "select_film_actor s (id_film f) (id_actor a) = None"
    by (rule pair_absent_existing[OF v ts n f])
  have ga: "get_actor s (id_actor a) = Some a"
    using get_actor_of_member[OF v] select_actor_mem[OF a] by blast
  have gf: "get_film s (id_film f) = Some f"
    using get_film_of_member[OF v] select_film_mem[OF f] by blast
  show ?thesis
    by (simp add: add_film_def a ts n f link_film_actor_def insert_film_actor_def j p ga gf)
qed

lemma add_film_links_new:
  assumes v: "valid_store s" and a: "select_actor s fn ln ag = Some a"
    and nt: "\<not> is_Conflict (fst (add_film s i j fn ln ag t d y))"
    and f: "select_film s t y = None"
    and c: "check_film t d y" and i: "get_film s i = None"
    and j: "find (\<lambda>x. id_film_actor x = j) (film_actor_table s) = None"
  shows "add_film s i j fn ln ag t d y =
           (Inr (Redirect_film_detail t y),
            [s\<lparr>film_table := film_table s @
                 [\<lparr>id_film = i, title = t, description = d, year = y\<rparr>]\<rparr>,
             s\<lparr>film_table := film_table s @
                 [\<lparr>id_film = i, title = t, description = d, year = y\<rparr>],
               film_actor_table := film_actor_table s @
                 [\<lparr>id_film_actor = j, film_id = i, actor_id = id_actor a\<rparr>]\<rparr>])"
proof -
  let ?f = "\<lparr>id_film = i, title = t, description = d, year = y\<rparr>"
  let ?s1 = "s\<lparr>film_table := film_table s @ [?f]\<rparr>"
  from actor_titles_valid[OF v, of a] obtain ts where ts: "actor_titles s a = Inr ts" by blast
  from nt have n: "t \<notin> set ts" by (auto simp: add_film_def a ts)
  have ins: "insert_film s ?f = Inr ?s1"
    by (simp add: insert_film_def c i f)
  have p: "select_film_actor ?s1 i (id_actor a) = None"
    by (rule pair_absent_new[OF ts ins])
  have ga: "get_actor ?s1 (id_actor a) = Some a"
    using get_actor_of_member[OF v] select_actor_mem[OF a] by (simp add: get_actor_def)
  have gf: "get_film ?s1 i = Some ?f"
    using i by (simp add: get_film_def find_snoc)
  have j1: "find (\<lambda>x. id_film_actor x = j) (film_actor_table ?s1) = None"
    using j by simp
  have "link_film_actor ?s1 [?s1] j ?f a t y =
          (Inr (Redirect_film_detail t y),
            [?s1, ?s1\<lparr>film_actor_table := film_actor_table s @
                 [\<lparr>id_film_actor = j, film_id = i, actor_id = id_actor a\<rparr>]\<rparr>])"
    unfolding link_film_actor_def insert_film_actor_def
    using p ga gf j1 by simp
  then show ?thesis
    by (simp add: add_film_def a ts n f ins)
qed

lemma add_film_refused:
  assumes v: "valid_store s" and a: "select_actor s fn ln ag = Some a"
    and nt: "\<not> is_Conflict (fst (add_film s i j fn ln ag t d y))"
    and f: "select_film s t y = None" and c: "\<not> check_film t d y"
  shows "add_film s i j fn ln ag t d y = (Inl IntegrityError, [])"
proof -
  from actor_titles_valid[OF v, of a] obtain ts where ts: "actor_titles s a = Inr ts" by blast
  from nt have n: "t \<notin> set ts" by (auto simp: add_film_def a ts)
  show ?thesis
    by (simp add: add_film_def a ts n f insert_film_def c)
qed

lemma valid_tom_only_store: "valid_store tom_only_store"
  by (simp add: valid_store_def tom_only_store_def tom_def check_actor_def)

text \<open>
  Claim C3, as the code has it. \<^verbatim>\<open>add_film\<close> raises \<^verbatim>\<open>NotFound\<close> when no actor has the
  given name and age. When one has, in a well-formed store, it raises \<^verbatim>\<open>Conflict\<close>
  exactly when the title is the title of a film linked to that actor, whatever the years
  and whatever other actors are linked to; so the title of one of the actor's films
  conflicts under every year. Without conflict, and with an unused identifier for the
  association, an existing film of that title and year is linked to the actor; when there
  is none, a film whose fields pass the check constraints is inserted under an unused
  identifier and linked, and a film whose fields do not pass them is refused by the
  database with nothing committed.
\<close>

theorem add_film_for_actor_rule:
  "(select_actor s fn ln ag = None \<longrightarrow>
      add_film s i j fn ln ag t d y =
        (Inl (NotFound [Lit ''Actor with name \"'', Str fn, Lit ''\" not found'']), []))
   \<and> (\<forall>a. valid_store s \<and> select_actor s fn ln ag = Some a \<longrightarrow>
        (is_Conflict (fst (add_film s i j fn ln ag t d y)) \<longleftrightarrow>
           t \<in> title ` {f \<in> set (film_table s).
                 \<exists>r\<in>set (film_actor_table s). actor_id r = id_actor a \<and> film_id r = id_film f})
      \<and> (\<forall>f r y'. f \<in> set (film_table s) \<and> r \<in> set (film_actor_table s)
              \<and> actor_id r = id_actor a \<and> film_id r = id_film f \<longrightarrow>
              is_Conflict (fst (add_film s i j fn ln ag (title f) d y')))
      \<and> (\<forall>f. \<not> is_Conflict (fst (add_film s i j fn ln ag t d y))
              \<and> select_film s t y = Some f
              \<and> find (\<lambda>x. id_film_actor x = j) (film_actor_table s) = None \<longrightarrow>
            add_film s i j fn ln ag t d y =
              (Inr (Redirect_film_detail t y),
               [s\<lparr>film_actor_table := film_actor_table s @
                    [\<lparr>id_film_actor = j, film_id = id_film f, actor_id = id_actor a\<rparr>]\<rparr>]))
      \<and> (\<not> is_Conflict (fst (add_film s i j fn ln ag t d y))
              \<and> select_film s t y = None \<and> check_film t d y \<and> get_film s i = None
              \<and> find (\<lambda>x. id_film_actor x = j) (film_actor_table s) = None \<longrightarrow>
            add_film s i j fn ln ag t d y =
              (Inr (Redirect_film_detail t y),
               [s\<lparr>film_table := film_table s @
                    [\<lparr>id_film = i, title = t, description = d, year = y\<rparr>]\<rparr>,
                s\<lparr>film_table := film_table s @
                    [\<lparr>id_film = i, title = t, description = d, year = y\<rparr>],
                  film_actor_table := film_actor_table s @
                    [\<lparr>id_film_actor = j, film_id = i, actor_id = id_actor a\<rparr>]\<rparr>]))
      \<and> (\<not> is_Conflict (fst (add_film s i j fn ln ag t d y))
              \<and> select_film s t y = None \<and> \<not> check_film t d y \<longrightarrow>
            add_film s i j fn ln ag t d y = (Inl IntegrityError, [])))"
proof (intro conjI allI impI)
  show "add_film s i j fn ln ag t d y =
        (Inl (NotFound [Lit ''Actor with name \"'', Str fn, Lit ''\" not found'']), [])"
    if "select_actor s fn ln ag = None"
    by (rule add_film_no_actor[OF that])
next
  fix a
  assume h: "valid_store s \<and> select_actor s fn ln ag = Some a"
  then have v: "valid_store s" and a: "select_actor s fn ln ag = Some a" by simp_all
  show "is_Conflict (fst (add_film s i j fn ln ag t d y)) \<longleftrightarrow>
           t \<in> title ` {f \<in> set (film_table s).
                 \<exists>r\<in>set (film_actor_table s). actor_id r = id_actor a \<and> film_id r = id_film f}"
    by (rule add_film_conflict_iff[OF v a])
  show "is_Conflict (fst (add_film s i j fn ln ag (title f) d y'))"
    if "f \<in> set (film_table s) \<and> r \<in> set (film_actor_table s)
              \<and> actor_id r = id_actor a \<and> film_id r = id_film f" for f r y'
    unfolding add_film_conflict_iff[OF v a] using that by blast
  show "add_film s i j fn ln ag t d y =
              (Inr (Redirect_film_detail t y),
               [s\<lparr>film_actor_table := film_actor_table s @
                    [\<lparr>id_film_actor = j, film_id = id_film f, actor_id = id_actor a\<rparr>]\<rparr>])"
    if "\<not> is_Conflict (fst (add_film s i j fn ln ag t d y))
              \<and> select_film s t y = Some f
              \<and> find (\<lambda>x. id_film_actor x = j) (film_actor_table s) = None" for f
    using add_film_links_existing[OF v a] that by blast
  show "add_film s i j fn ln ag t d y =
              (Inr (Redirect_film_detail t y),
               [s\<lparr>film_table := film_table s @
                    [\<lparr>id_film = i, title = t, description = d, year = y\<rparr>]\<rparr>,
                s\<lparr>film_table := film_table s @
                    [\<lparr>id_film = i, title = t, description = d, year = y\<rparr>],
                  film_actor_table := film_actor_table s @
                    [\<lparr>id_film_actor = j, film_id = i, actor_id = id_actor a\<rparr>]\<rparr>])"
    if "\<not> is_Conflict (fst (add_film s i j fn ln ag t d y))
              \<and> select_film s t y = None \<and> check_film t d y \<and> get_film s i = None
              \<and> find (\<lambda>x. id_film_actor x = j) (film_actor_table s) = None"
    using add_film_links_new[OF v a] that by blast
  show "add_film s i j fn ln ag t d y = (Inl IntegrityError, [])"
    if "\<not> is_Conflict (fst (add_film s i j fn ln ag t d y))
              \<and> select_film s t y = None \<and> \<not> check_film t d y"
    using add_film_refused[OF v a] that by blast
qed

lemmas add_film_eval =
  add_film_def select_actor_def actor_titles_def actor_films_def film_of_def get_film_def
  get_actor_def select_film_def link_film_actor_def insert_film_actor_def insert_film_def
  select_film_actor_def check_film_def

theorem add_film_for_actor_rule_witness:
  "valid_store demo_store
   \<and> select_actor demo_store ''No'' ''Body'' 1 = None
   \<and> is_NotFound (fst (add_film demo_store 13 24 ''No'' ''Body'' 1 ''Big'' ''A boy'' 1988))
   \<and> select_actor demo_store ''Tom'' ''Hanks'' 60 = Some tom
   \<and> select_actor demo_store ''Meg'' ''Ryan'' 55 = Some meg
   \<and> is_Conflict (fst (add_film demo_store 13 24 ''Tom'' ''Hanks'' 60 ''Cast Away'' ''Again'' 1999))
   \<and> \<not> is_Conflict (fst (add_film demo_store 13 24 ''Meg'' ''Ryan'' 55 ''Cast Away'' ''Again'' 2000))
   \<and> select_film demo_store ''Cast Away'' 2000 = Some cast_away
   \<and> add_film demo_store 13 24 ''Meg'' ''Ryan'' 55 ''Cast Away'' ''Again'' 2000 =
       (Inr (Redirect_film_detail ''Cast Away'' 2000),
        [demo_store\<lparr>film_actor_table := film_actor_table demo_store @
            [\<lparr>id_film_actor = 24, film_id = 11, actor_id = 2\<rparr>]\<rparr>])
   \<and> \<not> is_Conflict (fst (add_film demo_store 13 24 ''Tom'' ''Hanks'' 60 ''Big'' ''A boy'' 1988))
   \<and> select_film demo_store ''Big'' 1988 = None \<and> check_film ''Big'' ''A boy'' 1988
   \<and> get_film demo_store 13 = None
   \<and> add_film demo_store 13 24 ''Tom'' ''Hanks'' 60 ''Big'' ''A boy'' 1988 =
       (Inr (Redirect_film_detail ''Big'' 1988),
        [demo_store\<lparr>film_table := film_table demo_store @
            [\<lparr>id_film = 13, title = ''Big'', description = ''A boy'', year = 1988\<rparr>]\<rparr>,
         demo_store\<lparr>film_table := film_table demo_store @
            [\<lparr>id_film = 13, title = ''Big'', description = ''A boy'', year = 1988\<rparr>],
           film_actor_table := film_actor_table demo_store @
            [\<lparr>id_film_actor = 24, film_id = 13, actor_id = 1\<rparr>]\<rparr>])
   \<and> \<not> check_film ''Big'' ''A boy'' 1800
   \<and> add_film demo_store 13 24 ''Tom'' ''Hanks'' 60 ''Big'' ''A boy'' 1800 =
       (Inl IntegrityError, [])"
proof -
  have a: "select_actor demo_store ''No'' ''Body'' 1 = None"
    "select_actor demo_store ''Tom'' ''Hanks'' 60 = Some tom"
    "select_actor demo_store ''Meg'' ''Ryan'' 55 = Some meg"
    by (simp_all add: demo_defs select_actor_def)
  have f: "select_film demo_store ''Cast Away'' 2000 = Some cast_away"
    "select_film demo_store ''Big'' 1988 = None" "select_film demo_store ''Big'' 1800 = None"
    "get_film demo_store 13 = None"
    "find (\<lambda>x. id_film_actor x = 24) (film_actor_table demo_store) = None"
    by (simp_all add: demo_defs select_film_def get_film_def)
  have c: "check_film ''Big'' ''A boy'' 1988" "\<not> check_film ''Big'' ''A boy'' 1800"
    by (simp_all add: check_film_def)
  have n: "\<not> is_Conflict (fst (add_film demo_store 13 24 ''Meg'' ''Ryan'' 55 ''Cast Away'' ''Again'' 2000))"
    "\<not> is_Conflict (fst (add_film demo_store 13 24 ''Tom'' ''Hanks'' 60 ''Big'' ''A boy'' 1988))"
    "\<not> is_Conflict (fst (add_film demo_store 13 24 ''Tom'' ''Hanks'' 60 ''Big'' ''A boy'' 1800))"
    by (simp_all add: demo_defs add_film_eval)
  have m: "cast_away \<in> set (film_table demo_store)"
    "\<lparr>id_film_actor = 21, film_id = 11, actor_id = 1\<rparr> \<in> set (film_actor_table demo_store)"
    "id_film cast_away = 11" "id_actor tom = 1" "id_actor meg = 2" "title cast_away = ''Cast Away''"
    by (simp_all add: demo_defs)
  note t0 = add_film_for_actor_rule[of demo_store "''No''" "''Body''" 1 13 24 "''Big''" "''A boy''" 1988,
      THEN conjunct1, rule_format, OF a(1)]
  note t1 = add_film_for_actor_rule[of demo_store "''Tom''" "''Hanks''" 60 13 24 "''Big''" "''Again''" 1988,
      THEN conjunct2, rule_format, OF conjI[OF valid_demo_store a(2)]]
  from t1[THEN conjunct2, THEN conjunct1, rule_format,
      of cast_away "\<lparr>id_film_actor = 21, film_id = 11, actor_id = 1\<rparr>" 1999] m
  have r1: "is_Conflict (fst (add_film demo_store 13 24 ''Tom'' ''Hanks'' 60 ''Cast Away'' ''Again'' 1999))"
    by simp
  note t2 = add_film_for_actor_rule[of demo_store "''Meg''" "''Ryan''" 55 13 24 "''Cast Away''" "''Again''" 2000,
      THEN conjunct2, rule_format, OF conjI[OF valid_demo_store a(3)]]
  from t2[THEN conjunct2, THEN conjunct2, THEN conjunct1, rule_format, of cast_away] n(1) f m
  have r2: "add_film demo_store 13 24 ''Meg'' ''Ryan'' 55 ''Cast Away'' ''Again'' 2000 =
       (Inr (Redirect_film_detail ''Cast Away'' 2000),
        [demo_store\<lparr>film_actor_table := film_actor_table demo_store @
            [\<lparr>id_film_actor = 24, film_id = 11, actor_id = 2\<rparr>]\<rparr>])"
    by simp
  note t3 = add_film_for_actor_rule[of demo_store "''Tom''" "''Hanks''" 60 13 24 "''Big''" "''A boy''" 1988,
      THEN conjunct2, rule_format, OF conjI[OF valid_demo_store a(2)]]
  from t3[THEN conjunct2, THEN conjunct2, THEN conjunct2, THEN conjunct1] n(2) f c m
  have r3: "add_film demo_store 13 24 ''Tom'' ''Hanks'' 60 ''Big'' ''A boy'' 1988 =
       (Inr (Redirect_film_detail ''Big'' 1988),
        [demo_store\<lparr>film_table := film_table demo_store @
            [\<lparr>id_film = 13, title = ''Big'', description = ''A boy'', year = 1988\<rparr>]\<rparr>,
         demo_store\<lparr>film_table := film_table demo_store @
            [\<lparr>id_film = 13, title = ''Big'', description = ''A boy'', year = 1988\<rparr>],
           film_actor_table := film_actor_table demo_store @
            [\<lparr>id_film_actor = 24, film_id = 13, actor_id = 1\<rparr>]\<rparr>])"
    by simp
  note t4 = add_film_for_actor_rule[of demo_store "''Tom''" "''Hanks''" 60 13 24 "''Big''" "''A boy''" 1800,
      THEN conjunct2, rule_format, OF conjI[OF valid_demo_store a(2)]]
  from t4[THEN conjunct2, THEN conjunct2, THEN conjunct2, THEN conjunct2] n(3) f c
  have r4: "add_film demo_store 13 24 ''Tom'' ''Hanks'' 60 ''Big'' ''A boy'' 1800 =
       (Inl IntegrityError, [])"
    by simp
  from t0 have r0: "is_NotFound (fst (add_film demo_store 13 24 ''No'' ''Body'' 1 ''Big'' ''A boy'' 1988))"
    by simp
  from valid_demo_store a f c n r0 r1 r2 r3 r4 show ?thesis by blast
qed

text \<open>
  Tom exists and has no film, so the title cannot conflict; the year 1800 fails
  \<^verbatim>\<open>check_year\<close>, and the request ends in \<^verbatim>\<open>IntegrityError\<close> with no film resolved and
  no association made.
\<close>

theorem add_film_refused_counterexample:
  "select_actor tom_only_store ''Tom'' ''Hanks'' 60 = Some tom
   \<and> actor_titles tom_only_store tom = Inr []
   \<and> select_film tom_only_store ''Big'' 1800 = None
   \<and> add_film tom_only_store 11 21 ''Tom'' ''Hanks'' 60 ''Big'' ''A boy'' 1800
        = (Inl IntegrityError, [])
   \<and> db_after tom_only_store
        (add_film tom_only_store 11 21 ''Tom'' ''Hanks'' 60 ''Big'' ''A boy'' 1800)
        = tom_only_store"
  by (simp add: tom_only_store_def tom_def add_film_eval db_after_def)

lemma add_film_integrity_cases:
  assumes v: "valid_store s" and a: "select_actor s fn ln ag = Some a"
    and ts: "actor_titles s a = Inr ts" and n: "t \<notin> set ts"
    and e: "fst (add_film s i j fn ln ag t d y) = Inl IntegrityError"
  shows "(select_film s t y = None \<and> (\<not> check_film t d y \<or> get_film s i \<noteq> None))
         \<or> find (\<lambda>x. id_film_actor x = j) (film_actor_table s) \<noteq> None"
proof (rule ccontr)
  assume c: "\<not> ((select_film s t y = None \<and> (\<not> check_film t d y \<or> get_film s i \<noteq> None))
         \<or> find (\<lambda>x. id_film_actor x = j) (film_actor_table s) \<noteq> None)"
  then have j: "find (\<lambda>x. id_film_actor x = j) (film_actor_table s) = None" by simp
  have nc: "\<not> is_Conflict (fst (add_film s i j fn ln ag t d y))"
    using e by simp
  show False
  proof (cases "select_film s t y")
    case None
    with c have "check_film t d y" "get_film s i = None" by auto
    from add_film_links_new[OF v a nc None this j] e show False by simp
  next
    case (Some f)
    from add_film_links_existing[OF v a nc Some j] e show False by simp
  qed
qed

text \<open>
  Claim C9. In a well-formed store, once the titles of the resolved actor are computed and
  the requested title is not among them, no association row has the pair of the film about
  to be linked and the actor: neither for a film found by title and year, nor for a film
  just inserted. Hence \<^verbatim>\<open>add_film\<close> can then end in \<^verbatim>\<open>IntegrityError\<close> only because
  the new film was refused (its checks or its identifier) or because the identifier of
  the new association row is taken; the unique constraint on the pair never fires.
\<close>

theorem add_film_pair_is_new:
  "\<forall>a ts. valid_store s \<and> select_actor s fn ln ag = Some a
          \<and> actor_titles s a = Inr ts \<and> t \<notin> set ts \<longrightarrow>
      (\<forall>f. select_film s t y = Some f \<longrightarrow>
            select_film_actor s (id_film f) (id_actor a) = None)
    \<and> (\<forall>s1. select_film s t y = None
            \<and> insert_film s \<lparr>id_film = i, title = t, description = d, year = y\<rparr> = Inr s1 \<longrightarrow>
            select_film_actor s1 i (id_actor a) = None)
    \<and> (fst (add_film s i j fn ln ag t d y) = Inl IntegrityError \<longrightarrow>
          (select_film s t y = None \<and> (\<not> check_film t d y \<or> get_film s i \<noteq> None))
          \<or> find (\<lambda>x. id_film_actor x = j) (film_actor_table s) \<noteq> None)"
proof (intro allI impI conjI)
  fix a ts
  assume h: "valid_store s \<and> select_actor s fn ln ag = Some a
          \<and> actor_titles s a = Inr ts \<and> t \<notin> set ts"
  then have v: "valid_store s" and a: "select_actor s fn ln ag = Some a"
    and ts: "actor_titles s a = Inr ts" and n: "t \<notin> set ts"
    by simp_all
  show "select_film_actor s (id_film f) (id_actor a) = None"
    if "select_film s t y = Some f" for f
    by (rule pair_absent_existing[OF v ts n that])
  show "select_film_actor s1 i (id_actor a) = None"
    if "select_film s t y = None
            \<and> insert_film s \<lparr>id_film = i, title = t, description = d, year = y\<rparr> = Inr s1" for s1
    using pair_absent_new[OF ts] that by blast
  show "(select_film s t y = None \<and> (\<not> check_film t d y \<or> get_film s i \<noteq> None))
          \<or> find (\<lambda>x. id_film_actor x = j) (film_actor_table s) \<noteq> None"
    if "fst (add_film s i j fn ln ag t d y) = Inl IntegrityError"
    by (rule add_film_integrity_cases[OF v a ts n that])
qed

theorem add_film_pair_is_new_witness:
  "valid_store demo_store
   \<and> select_actor demo_store ''Meg'' ''Ryan'' 55 = Some meg
   \<and> actor_titles demo_store meg = Inr [''Sleepless'']
   \<and> ''Cast Away'' \<notin> set [''Sleepless''] \<and> ''Big'' \<notin> set [''Sleepless'']
   \<and> select_film demo_store ''Cast Away'' 2000 = Some cast_away
   \<and> select_film_actor demo_store (id_film cast_away) (id_actor meg) = None
   \<and> select_film demo_store ''Big'' 1988 = None
   \<and> insert_film demo_store \<lparr>id_film = 13, title = ''Big'', description = ''A boy'', year = 1988\<rparr>
       = Inr (demo_store\<lparr>film_table := film_table demo_store @
            [\<lparr>id_film = 13, title = ''Big'', description = ''A boy'', year = 1988\<rparr>]\<rparr>)
   \<and> select_film_actor
        (demo_store\<lparr>film_table := film_table demo_store @
            [\<lparr>id_film = 13, title = ''Big'', description = ''A boy'', year = 1988\<rparr>]\<rparr>)
        13 (id_actor meg) = None
   \<and> fst (add_film demo_store 13 21 ''Meg'' ''Ryan'' 55 ''Big'' ''A boy'' 1988) = Inl IntegrityError
   \<and> find (\<lambda>x. id_film_actor x = 21) (film_actor_table demo_store) \<noteq> None"
proof -
  have a: "select_actor demo_store ''Meg'' ''Ryan'' 55 = Some meg"
    by (simp add: demo_defs select_actor_def)
  have ts: "actor_titles demo_store meg = Inr [''Sleepless'']"
    by (simp add: demo_defs actor_titles_def actor_films_def film_of_def get_film_def)
  have n: "''Cast Away'' \<notin> set [''Sleepless'']" "''Big'' \<notin> set [''Sleepless'']"
    by simp_all
  have f: "select_film demo_store ''Cast Away'' 2000 = Some cast_away"
    "select_film demo_store ''Big'' 1988 = None"
    by (simp_all add: demo_defs select_film_def)
  have ins: "insert_film demo_store \<lparr>id_film = 13, title = ''Big'', description = ''A boy'', year = 1988\<rparr>
       = Inr (demo_store\<lparr>film_table := film_table demo_store @
            [\<lparr>id_film = 13, title = ''Big'', description = ''A boy'', year = 1988\<rparr>]\<rparr>)"
    by (simp add: demo_defs insert_film_def check_film_def get_film_def select_film_def)
  have e: "fst (add_film demo_store 13 21 ''Meg'' ''Ryan'' 55 ''Big'' ''A boy'' 1988) = Inl IntegrityError"
    by (simp add: demo_defs add_film_eval)
  note t1 = add_film_pair_is_new[of demo_store "''Meg''" "''Ryan''" 55 "''Cast Away''" 2000 13 "''A boy''" 21,
      rule_format, OF conjI[OF valid_demo_store conjI[OF a conjI[OF ts n(1)]]]]
  note t2 = add_film_pair_is_new[of demo_store "''Meg''" "''Ryan''" 55 "''Big''" 1988 13 "''A boy''" 21,
      rule_format, OF conjI[OF valid_demo_store conjI[OF a conjI[OF ts n(2)]]]]
  from t1[THEN conjunct1, rule_format, OF f(1)]
  have r1: "select_film_actor demo_store (id_film cast_away) (id_actor meg) = None" .
  from t2[THEN conjunct2, THEN conjunct1, rule_format, OF conjI[OF f(2) ins]]
  have r2: "select_film_actor
        (demo_store\<lparr>film_table := film_table demo_store @
            [\<lparr>id_film = 13, title = ''Big'', description = ''A boy'', year = 1988\<rparr>]\<rparr>)
        13 (id_actor meg) = None" .
  from t2[THEN conjunct2, THEN conjunct2, rule_format, OF e]
  have r3: "find (\<lambda>x. id_film_actor x = 21) (film_actor_table demo_store) \<noteq> None"
    by (simp add: demo_defs select_film_def check_film_def get_film_def)
  from valid_demo_store a ts n f ins e r1 r2 r3 show ?thesis by blast
qed

section \<open>Adding an actor\<close>

lemma add_actor_existing:
  assumes "select_actor s fn ln ag = Some a"
  shows "add_actor s i fn ln ag = (Inr (Redirect_actor_detail fn ln ag), [])"
  using assms by (simp add: add_actor_def)

lemma add_actor_new:
  assumes "select_actor s fn ln ag = None" "check_actor fn ln ag" "get_actor s i = None"
  shows "add_actor s i fn ln ag =
           (Inr (Redirect_actor_detail fn ln ag),
            [s\<lparr>actor_table := actor_table s @
                 [\<lparr>id_actor = i, first_name = fn, last_name = ln, age = ag\<rparr>]\<rparr>])"
  using assms by (simp add: add_actor_def insert_actor_def)

lemma add_actor_refused:
  assumes "select_actor s fn ln ag = None" "\<not> check_actor fn ln ag"
  shows "add_actor s i fn ln ag = (Inl IntegrityError, [])"
  using assms by (simp add: add_actor_def insert_actor_def)

lemma add_actor_cases:
  "db_after s (add_actor s i fn ln ag) = s
   \<or> (select_actor s fn ln ag = None
      \<and> db_after s (add_actor s i fn ln ag) =
          s\<lparr>actor_table := actor_table s @
               [\<lparr>id_actor = i, first_name = fn, last_name = ln, age = ag\<rparr>]\<rparr>)"
  by (simp add: add_actor_def insert_actor_def db_after_def split: option.splits)

lemma add_actor_never_conflict: "\<not> is_Conflict (fst (add_actor s i fn ln ag))"
  by (simp add: add_actor_def insert_actor_def split: option.splits)

lemma add_actor_again:
  assumes "fst (add_actor s i fn ln ag) = Inr r"
  shows "add_actor (db_after s (add_actor s i fn ln ag)) j fn ln ag =
           (Inr (Redirect_actor_detail fn ln ag), [])"
proof (cases "select_actor s fn ln ag")
  case (Some a)
  then show ?thesis by (simp add: add_actor_def db_after_def)
next
  case None
  with assms have "db_after s (add_actor s i fn ln ag) =
          s\<lparr>actor_table := actor_table s @
               [\<lparr>id_actor = i, first_name = fn, last_name = ln, age = ag\<rparr>]\<rparr>"
    by (simp add: add_actor_def insert_actor_def db_after_def split: if_splits)
  moreover from None
  have "select_actor (s\<lparr>actor_table := actor_table s @
               [\<lparr>id_actor = i, first_name = fn, last_name = ln, age = ag\<rparr>]\<rparr>) fn ln ag
        = Some \<lparr>id_actor = i, first_name = fn, last_name = ln, age = ag\<rparr>"
    by (simp add: select_actor_def find_snoc)
  ultimately show ?thesis by (simp add: add_actor_existing)
qed

lemma add_actor_keeps_unique:
  assumes "distinct (map (\<lambda>a. (first_name a, last_name a, age a)) (actor_table s))"
  shows "distinct (map (\<lambda>a. (first_name a, last_name a, age a))
           (actor_table (db_after s (add_actor s i fn ln ag))))"
proof -
  from add_actor_cases[of s i fn ln ag] show ?thesis
  proof
    assume "db_after s (add_actor s i fn ln ag) = s"
    with assms show ?thesis by simp
  next
    assume h: "select_actor s fn ln ag = None
      \<and> db_after s (add_actor s i fn ln ag) =
          s\<lparr>actor_table := actor_table s @
               [\<lparr>id_actor = i, first_name = fn, last_name = ln, age = ag\<rparr>]\<rparr>"
    then have "(fn, ln, ag) \<notin> set (map (\<lambda>a. (first_name a, last_name a, age a)) (actor_table s))"
      by (auto simp: select_actor_None_iff)
    with h assms show ?thesis by simp
  qed
qed

lemma add_actors_keep_unique:
  "distinct (map (\<lambda>a. (first_name a, last_name a, age a)) (actor_table s)) \<Longrightarrow>
   distinct (map (\<lambda>a. (first_name a, last_name a, age a)) (actor_table (add_actors s reqs)))"
proof (induction reqs arbitrary: s)
  case Nil
  then show ?case by simp
next
  case (Cons q reqs)
  obtain i fn ln ag where q: "q = (i, fn, ln, ag)" by (cases q) auto
  from Cons.IH[OF add_actor_keeps_unique[OF Cons.prems, of i fn ln ag]] q
  show ?case by simp
qed

text \<open>
  Claim C5, as the code has it. When an actor with the triple exists, \<^verbatim>\<open>add_actor\<close>
  redirects to it and commits nothing. When none exists and the triple passes the check
  constraints of \<^verbatim>\<open>Actor\<close>, a row with the triple is appended under the generated
  identifier, provided that identifier is unused; when the triple does not pass them the
  database refuses the row and nothing is committed. No call raises \<^verbatim>\<open>Conflict\<close>, a
  successful call repeated with the same triple changes nothing, and after any sequence
  of calls the triples of the actor table are distinct if they were before, in
  particular from the empty database.
\<close>

theorem add_actor_lookup_or_insert:
  "(\<forall>a. select_actor s fn ln ag = Some a \<longrightarrow>
      add_actor s i fn ln ag = (Inr (Redirect_actor_detail fn ln ag), [])
    \<and> db_after s (add_actor s i fn ln ag) = s
    \<and> a \<in> set (actor_table s) \<and> first_name a = fn \<and> last_name a = ln \<and> age a = ag)
   \<and> (select_actor s fn ln ag = None \<and> check_actor fn ln ag \<and> get_actor s i = None \<longrightarrow>
        add_actor s i fn ln ag =
          (Inr (Redirect_actor_detail fn ln ag),
           [s\<lparr>actor_table := actor_table s @
                [\<lparr>id_actor = i, first_name = fn, last_name = ln, age = ag\<rparr>]\<rparr>]))
   \<and> (select_actor s fn ln ag = None \<and> \<not> check_actor fn ln ag \<longrightarrow>
        add_actor s i fn ln ag = (Inl IntegrityError, []))
   \<and> \<not> is_Conflict (fst (add_actor s i fn ln ag))
   \<and> (\<forall>r. fst (add_actor s i fn ln ag) = Inr r \<longrightarrow>
        add_actor (db_after s (add_actor s i fn ln ag)) j fn ln ag =
          (Inr (Redirect_actor_detail fn ln ag), []))
   \<and> (distinct (map (\<lambda>a. (first_name a, last_name a, age a)) (actor_table s)) \<longrightarrow>
        distinct (map (\<lambda>a. (first_name a, last_name a, age a))
                    (actor_table (add_actors s reqs))))
   \<and> distinct (map (\<lambda>a. (first_name a, last_name a, age a))
                 (actor_table (add_actors empty_store reqs)))"
proof (intro conjI allI impI)
  fix a
  assume a: "select_actor s fn ln ag = Some a"
  show "add_actor s i fn ln ag = (Inr (Redirect_actor_detail fn ln ag), [])"
    by (rule add_actor_existing[OF a])
  then show "db_after s (add_actor s i fn ln ag) = s" by (simp add: db_after_def)
  from select_actor_mem[OF a]
  show "a \<in> set (actor_table s)" "first_name a = fn" "last_name a = ln" "age a = ag"
    by simp_all
next
  show "add_actor s i fn ln ag =
          (Inr (Redirect_actor_detail fn ln ag),
           [s\<lparr>actor_table := actor_table s @
                [\<lparr>id_actor = i, first_name = fn, last_name = ln, age = ag\<rparr>]\<rparr>])"
    if "select_actor s fn ln ag = None \<and> check_actor fn ln ag \<and> get_actor s i = None"
    using add_actor_new that by blast
  show "add_actor s i fn ln ag = (Inl IntegrityError, [])"
    if "select_actor s fn ln ag = None \<and> \<not> check_actor fn ln ag"
    using add_actor_refused that by blast
  show "\<not> is_Conflict (fst (add_actor s i fn ln ag))"
    by (rule add_actor_never_conflict)
  show "add_actor (db_after s (add_actor s i fn ln ag)) j fn ln ag =
          (Inr (Redirect_actor_detail fn ln ag), [])"
    if "fst (add_actor s i fn ln ag) = Inr r" for r
    by (rule add_actor_again[OF that])
  show "distinct (map (\<lambda>a. (first_name a, last_name a, age a))
                    (actor_table (add_actors s reqs)))"
    if "distinct (map (\<lambda>a. (first_name a, last_name a, age a)) (actor_table s))"
    by (rule add_actors_keep_unique[OF that])
  show "distinct (map (\<lambda>a. (first_name a, last_name a, age a))
                 (actor_table (add_actors empty_store reqs)))"
    by (rule add_actors_keep_unique) (simp add: empty_store_def)
qed

theorem add_actor_lookup_or_insert_witness:
  "select_actor tom_only_store ''Tom'' ''Hanks'' 60 = Some tom
   \<and> add_actor tom_only_store 2 ''Tom'' ''Hanks'' 60 =
       (Inr (Redirect_actor_detail ''Tom'' ''Hanks'' 60), [])
   \<and> db_after tom_only_store (add_actor tom_only_store 2 ''Tom'' ''Hanks'' 60) = tom_only_store
   \<and> select_actor tom_only_store ''Meg'' ''Ryan'' 55 = None \<and> check_actor ''Meg'' ''Ryan'' 55
   \<and> get_actor tom_only_store 2 = None
   \<and> add_actor tom_only_store 2 ''Meg'' ''Ryan'' 55 =
       (Inr (Redirect_actor_detail ''Meg'' ''Ryan'' 55),
        [\<lparr>actor_table = [tom, meg], film_table = [], film_actor_table = []\<rparr>])
   \<and> add_actor (db_after tom_only_store (add_actor tom_only_store 2 ''Meg'' ''Ryan'' 55))
        3 ''Meg'' ''Ryan'' 55 = (Inr (Redirect_actor_detail ''Meg'' ''Ryan'' 55), [])
   \<and> select_actor tom_only_store ''Meg'' ''Ryan'' 101 = None \<and> \<not> check_actor ''Meg'' ''Ryan'' 101
   \<and> add_actor tom_only_store 2 ''Meg'' ''Ryan'' 101 = (Inl IntegrityError, [])
   \<and> distinct (map (\<lambda>a. (first_name a, last_name a, age a)) (actor_table tom_only_store))
   \<and> distinct (map (\<lambda>a. (first_name a, last_name a, age a))
        (actor_table (add_actors tom_only_store
           [(2, ''Meg'', ''Ryan'', 55), (3, ''Tom'', ''Hanks'', 60), (4, ''Meg'', ''Ryan'', 55)])))"
proof -
  have a: "select_actor tom_only_store ''Tom'' ''Hanks'' 60 = Some tom"
    "select_actor tom_only_store ''Meg'' ''Ryan'' 55 = None"
    "select_actor tom_only_store ''Meg'' ''Ryan'' 101 = None"
    "get_actor tom_only_store 2 = None"
    by (simp_all add: tom_only_store_def tom_def select_actor_def get_actor_def)
  have c: "check_actor ''Meg'' ''Ryan'' 55" "\<not> check_actor ''Meg'' ''Ryan'' 101"
    by (simp_all add: check_actor_def)
  have d: "distinct (map (\<lambda>a. (first_name a, last_name a, age a)) (actor_table tom_only_store))"
    by (simp add: tom_only_store_def)
  have e: "tom_only_store\<lparr>actor_table := actor_table tom_only_store @
                [\<lparr>id_actor = 2, first_name = ''Meg'', last_name = ''Ryan'', age = 55\<rparr>]\<rparr>
         = \<lparr>actor_table = [tom, meg], film_table = [], film_actor_table = []\<rparr>"
    by (simp add: tom_only_store_def meg_def)
  note t1 = add_actor_lookup_or_insert[of tom_only_store "''Tom''" "''Hanks''" 60 2 3
      "[(2, ''Meg'', ''Ryan'', 55), (3, ''Tom'', ''Hanks'', 60), (4, ''Meg'', ''Ryan'', 55)]"]
  note t2 = add_actor_lookup_or_insert[of tom_only_store "''Meg''" "''Ryan''" 55 2 3 "[]"]
  note t3 = add_actor_lookup_or_insert[of tom_only_store "''Meg''" "''Ryan''" 101 2 3 "[]"]
  from t1[THEN conjunct1, rule_format, OF a(1)]
  have r1: "add_actor tom_only_store 2 ''Tom'' ''Hanks'' 60 =
       (Inr (Redirect_actor_detail ''Tom'' ''Hanks'' 60), [])"
    "db_after tom_only_store (add_actor tom_only_store 2 ''Tom'' ''Hanks'' 60) = tom_only_store"
    by blast+
  from t2[THEN conjunct2, THEN conjunct1, rule_format, OF conjI[OF a(2) conjI[OF c(1) a(4)]]]
  have r2: "add_actor tom_only_store 2 ''Meg'' ''Ryan'' 55 =
       (Inr (Redirect_actor_detail ''Meg'' ''Ryan'' 55),
        [\<lparr>actor_table = [tom, meg], film_table = [], film_actor_table = []\<rparr>])"
    unfolding e .
  then have "fst (add_actor tom_only_store 2 ''Meg'' ''Ryan'' 55)
               = Inr (Redirect_actor_detail ''Meg'' ''Ryan'' 55)" by simp
  from t2[THEN conjunct2, THEN conjunct2, THEN conjunct2, THEN conjunct2, THEN conjunct1,
      rule_format, OF this]
  have r3: "add_actor (db_after tom_only_store (add_actor tom_only_store 2 ''Meg'' ''Ryan'' 55))
        3 ''Meg'' ''Ryan'' 55 = (Inr (Redirect_actor_detail ''Meg'' ''Ryan'' 55), [])" .
  from t3[THEN conjunct2, THEN conjunct2, THEN conjunct1, rule_format, OF conjI[OF a(3) c(2)]]
  have r4: "add_actor tom_only_store 2 ''Meg'' ''Ryan'' 101 = (Inl IntegrityError, [])" .
  from t1[THEN conjunct2, THEN conjunct2, THEN conjunct2, THEN conjunct2, THEN conjunct2,
      THEN conjunct1, rule_format, OF d]
  have r5: "distinct (map (\<lambda>a. (first_name a, last_name a, age a))
        (actor_table (add_actors tom_only_store
           [(2, ''Meg'', ''Ryan'', 55), (3, ''Tom'', ''Hanks'', 60), (4, ''Meg'', ''Ryan'', 55)])))" .
  from a c d r1 r2 r3 r4 r5 show ?thesis by blast
qed

text \<open>
  No actor has the triple, and none is created: age 0 fails \<^verbatim>\<open>check_age\<close>.
\<close>

theorem add_actor_refused_counterexample:
  "select_actor empty_store ''Tom'' ''Hanks'' 0 = None
   \<and> add_actor empty_store 1 ''Tom'' ''Hanks'' 0 = (Inl IntegrityError, [])
   \<and> actor_table (db_after empty_store (add_actor empty_store 1 ''Tom'' ''Hanks'' 0)) = []"
  by (simp add: empty_store_def add_actor_def select_actor_def insert_actor_def check_actor_def
        db_after_def)

section \<open>Commits\<close>

lemma one_unit_add_actor: "one_unit_of_work s (add_actor s i fn ln ag)"
  by (simp add: one_unit_of_work_def add_actor_def db_after_def split: option.splits sum.splits)

lemma one_unit_update_actor: "one_unit_of_work s (update_actor s aid fn ln ag)"
  by (simp add: one_unit_of_work_def update_actor_def db_after_def
        split: option.splits sum.splits)

lemma one_unit_update_film: "one_unit_of_work s (update_film s fid t d y)"
  by (simp add: one_unit_of_work_def update_film_def db_after_def
        split: option.splits sum.splits)

lemma one_unit_delete_film: "one_unit_of_work s (delete_film s fid)"
  by (simp add: one_unit_of_work_def delete_film_def db_after_def
        split: option.splits sum.splits)

lemma one_unit_delete_film_by_actor: "one_unit_of_work s (delete_film_by_actor s fid aid)"
  by (simp add: one_unit_of_work_def delete_film_by_actor_def db_after_def
        split: option.splits sum.splits)

lemma one_unit_delete_actor: "one_unit_of_work s (delete_actor s aid)"
  by (simp add: one_unit_of_work_def delete_actor_def db_after_def
        split: option.splits sum.splits)

lemma link_film_actor_log:
  "snd (link_film_actor s log j f a t y) = log
   \<or> (\<exists>s2 r. link_film_actor s log j f a t y = (Inr r, log @ [s2]))"
  by (simp add: link_film_actor_def split: sum.splits)

lemma link_film_actor_fails:
  "fst (link_film_actor s log j f a t y) = Inl e \<Longrightarrow>
     e = IntegrityError \<and> snd (link_film_actor s log j f a t y) = log"
  by (auto simp: link_film_actor_def split: sum.splits dest: insert_film_actor_Inl)

lemma add_film_early_failures:
  assumes "is_NotFound (fst (add_film s i j fn ln ag t d y))
           \<or> is_Conflict (fst (add_film s i j fn ln ag t d y))"
  shows "snd (add_film s i j fn ln ag t d y) = []"
proof -
  have *: "\<not> is_NotFound (fst (link_film_actor s' log j f a t y))
         \<and> \<not> is_Conflict (fst (link_film_actor s' log j f a t y))" for s' log f a
    by (cases "fst (link_film_actor s' log j f a t y)")
       (auto dest: link_film_actor_fails)
  from assms show ?thesis
    by (auto simp: add_film_def * split: option.splits sum.splits if_splits
          dest: insert_film_Inl)
qed

lemma add_film_at_most_two: "length (snd (add_film s i j fn ln ag t d y)) \<le> 2"
proof -
  have *: "length (snd (link_film_actor s' log j f a t y)) \<le> 2"
    if "length log \<le> 1" for s' log f a
    using link_film_actor_log[of s' log j f a t y] that by auto
  show ?thesis
    by (auto simp: add_film_def * split: option.splits sum.splits)
qed

lemma add_film_existing_one_unit:
  assumes "select_film s t y \<noteq> None"
  shows "one_unit_of_work s (add_film s i j fn ln ag t d y)"
  using assms
  by (auto simp: one_unit_of_work_def add_film_def link_film_actor_def db_after_def
        split: option.splits sum.splits)

lemma add_film_existing_link_refused:
  assumes v: "valid_store s" and a: "select_actor s fn ln ag = Some a"
    and nt: "\<not> is_Conflict (fst (add_film s i j fn ln ag t d y))"
    and f: "select_film s t y = Some f"
    and j: "find (\<lambda>x. id_film_actor x = j) (film_actor_table s) \<noteq> None"
  shows "add_film s i j fn ln ag t d y = (Inl IntegrityError, [])"
proof -
  from actor_titles_valid[OF v, of a] obtain ts where ts: "actor_titles s a = Inr ts" by blast
  from nt have n: "t \<notin> set ts" by (auto simp: add_film_def a ts)
  from j obtain r where r: "find (\<lambda>x. id_film_actor x = j) (film_actor_table s) = Some r"
    by auto
  show ?thesis
    by (simp add: add_film_def a ts n f link_film_actor_def insert_film_actor_def r)
qed

lemma add_film_refused_id:
  assumes v: "valid_store s" and a: "select_actor s fn ln ag = Some a"
    and nt: "\<not> is_Conflict (fst (add_film s i j fn ln ag t d y))"
    and f: "select_film s t y = None" and i: "get_film s i \<noteq> None"
  shows "add_film s i j fn ln ag t d y = (Inl IntegrityError, [])"
proof -
  from actor_titles_valid[OF v, of a] obtain ts where ts: "actor_titles s a = Inr ts" by blast
  from nt have n: "t \<notin> set ts" by (auto simp: add_film_def a ts)
  from i obtain g where g: "get_film s i = Some g" by auto
  show ?thesis
    by (simp add: add_film_def a ts n f insert_film_def g)
qed

lemma add_film_link_refused:
  assumes v: "valid_store s" and a: "select_actor s fn ln ag = Some a"
    and nt: "\<not> is_Conflict (fst (add_film s i j fn ln ag t d y))"
    and f: "select_film s t y = None"
    and c: "check_film t d y" and i: "get_film s i = None"
    and j: "find (\<lambda>x. id_film_actor x = j) (film_actor_table s) \<noteq> None"
  shows "add_film s i j fn ln ag t d y =
           (Inl IntegrityError,
            [s\<lparr>film_table := film_table s @
                 [\<lparr>id_film = i, title = t, description = d, year = y\<rparr>]\<rparr>])"
proof -
  let ?f = "\<lparr>id_film = i, title = t, description = d, year = y\<rparr>"
  let ?s1 = "s\<lparr>film_table := film_table s @ [?f]\<rparr>"
  from actor_titles_valid[OF v, of a] obtain ts where ts: "actor_titles s a = Inr ts" by blast
  from nt have n: "t \<notin> set ts" by (auto simp: add_film_def a ts)
  have ins: "insert_film s ?f = Inr ?s1"
    by (simp add: insert_film_def c i f)
  have "insert_film_actor ?s1
          \<lparr>id_film_actor = j, film_id = id_film ?f, actor_id = id_actor a\<rparr> = Inl IntegrityError"
  proof -
    from j obtain r where "find (\<lambda>x. id_film_actor x = j) (film_actor_table s) = Some r"
      by auto
    then show ?thesis by (simp add: insert_film_actor_def)
  qed
  then have "link_film_actor ?s1 [?s1] j ?f a t y = (Inl IntegrityError, [?s1])"
    by (simp add: link_film_actor_def)
  then show ?thesis
    by (simp add: add_film_def a ts n f ins)
qed

lemma film_appended_differs:
  "s\<lparr>film_table := film_table s @ [x]\<rparr> \<noteq> s"
proof
  assume "s\<lparr>film_table := film_table s @ [x]\<rparr> = s"
  then have "film_table (s\<lparr>film_table := film_table s @ [x]\<rparr>) = film_table s"
    by (rule arg_cong)
  then show False by simp
qed

text \<open>
  Claim C2, as the code has it. \<^verbatim>\<open>add_actor\<close>, \<^verbatim>\<open>update_actor\<close>, \<^verbatim>\<open>update_film\<close>,
  \<^verbatim>\<open>delete_film\<close>, \<^verbatim>\<open>delete_film_by_actor\<close> and \<^verbatim>\<open>delete_actor\<close> are one unit of work:
  they commit at most once, as their last step, and commit nothing when they raise.
  \<^verbatim>\<open>add_film\<close> commits nothing when it raises \<^verbatim>\<open>NotFound\<close> or \<^verbatim>\<open>Conflict\<close>, is one
  unit of work when the film already exists, and never commits more than twice. In a
  well-formed store, with the actor resolved and no conflict, its commits are exactly
  these. For an existing film: one commit, of the association, when the identifier of the
  association is unused, and none, with \<^verbatim>\<open>IntegrityError\<close>, when it is taken. For a new
  film: none, with \<^verbatim>\<open>IntegrityError\<close>, when the film is refused (its checks or its
  identifier); otherwise the film is committed on its own, and then either the association
  is committed as a second commit, or, its identifier being taken, the request raises
  \<^verbatim>\<open>IntegrityError\<close> with the film committed, so that the database after the failed
  request is not the database before it.
\<close>

theorem units_of_work:
  "one_unit_of_work s (add_actor s i fn ln ag)
   \<and> one_unit_of_work s (update_actor s aid fn ln ag)
   \<and> one_unit_of_work s (update_film s fid t d y)
   \<and> one_unit_of_work s (delete_film s fid)
   \<and> one_unit_of_work s (delete_film_by_actor s fid aid)
   \<and> one_unit_of_work s (delete_actor s aid)
   \<and> (is_NotFound (fst (add_film s i j fn ln ag t d y))
        \<or> is_Conflict (fst (add_film s i j fn ln ag t d y)) \<longrightarrow>
        snd (add_film s i j fn ln ag t d y) = []
      \<and> db_after s (add_film s i j fn ln ag t d y) = s)
   \<and> (select_film s t y \<noteq> None \<longrightarrow> one_unit_of_work s (add_film s i j fn ln ag t d y))
   \<and> length (snd (add_film s i j fn ln ag t d y)) \<le> 2
   \<and> (\<forall>a. valid_store s \<and> select_actor s fn ln ag = Some a
          \<and> \<not> is_Conflict (fst (add_film s i j fn ln ag t d y)) \<longrightarrow>
        (\<forall>f. select_film s t y = Some f \<longrightarrow>
            (find (\<lambda>x. id_film_actor x = j) (film_actor_table s) = None \<longrightarrow>
               add_film s i j fn ln ag t d y =
                 (Inr (Redirect_film_detail t y),
                  [s\<lparr>film_actor_table := film_actor_table s @
                       [\<lparr>id_film_actor = j, film_id = id_film f, actor_id = id_actor a\<rparr>]\<rparr>]))
          \<and> (find (\<lambda>x. id_film_actor x = j) (film_actor_table s) \<noteq> None \<longrightarrow>
               add_film s i j fn ln ag t d y = (Inl IntegrityError, [])))
      \<and> (select_film s t y = None \<longrightarrow>
            (\<not> check_film t d y \<or> get_film s i \<noteq> None \<longrightarrow>
               add_film s i j fn ln ag t d y = (Inl IntegrityError, []))
          \<and> (check_film t d y \<and> get_film s i = None
               \<and> find (\<lambda>x. id_film_actor x = j) (film_actor_table s) = None \<longrightarrow>
               add_film s i j fn ln ag t d y =
                 (Inr (Redirect_film_detail t y),
                  [s\<lparr>film_table := film_table s @
                       [\<lparr>id_film = i, title = t, description = d, year = y\<rparr>]\<rparr>,
                   s\<lparr>film_table := film_table s @
                       [\<lparr>id_film = i, title = t, description = d, year = y\<rparr>],
                     film_actor_table := film_actor_table s @
                       [\<lparr>id_film_actor = j, film_id = i, actor_id = id_actor a\<rparr>]\<rparr>]))
          \<and> (check_film t d y \<and> get_film s i = None
               \<and> find (\<lambda>x. id_film_actor x = j) (film_actor_table s) \<noteq> None \<longrightarrow>
               add_film s i j fn ln ag t d y =
                 (Inl IntegrityError,
                  [s\<lparr>film_table := film_table s @
                       [\<lparr>id_film = i, title = t, description = d, year = y\<rparr>]\<rparr>])
             \<and> db_after s (add_film s i j fn ln ag t d y) =
                 s\<lparr>film_table := film_table s @
                       [\<lparr>id_film = i, title = t, description = d, year = y\<rparr>]\<rparr>
             \<and> db_after s (add_film s i j fn ln ag t d y) \<noteq> s)))"
proof -
  have six: "one_unit_of_work s (add_actor s i fn ln ag)"
    "one_unit_of_work s (update_actor s aid fn ln ag)"
    "one_unit_of_work s (update_film s fid t d y)"
    "one_unit_of_work s (delete_film s fid)"
    "one_unit_of_work s (delete_film_by_actor s fid aid)"
    "one_unit_of_work s (delete_actor s aid)"
    by (rule one_unit_add_actor one_unit_update_actor one_unit_update_film
          one_unit_delete_film one_unit_delete_film_by_actor one_unit_delete_actor)+
  have early: "is_NotFound (fst (add_film s i j fn ln ag t d y))
        \<or> is_Conflict (fst (add_film s i j fn ln ag t d y)) \<longrightarrow>
        snd (add_film s i j fn ln ag t d y) = []
      \<and> db_after s (add_film s i j fn ln ag t d y) = s"
  proof
    assume h: "is_NotFound (fst (add_film s i j fn ln ag t d y))
        \<or> is_Conflict (fst (add_film s i j fn ln ag t d y))"
    have "snd (add_film s i j fn ln ag t d y) = []"
      by (rule add_film_early_failures[OF h])
    then show "snd (add_film s i j fn ln ag t d y) = []
      \<and> db_after s (add_film s i j fn ln ag t d y) = s"
      by (simp add: db_after_def)
  qed
  have existing: "select_film s t y \<noteq> None \<longrightarrow>
      one_unit_of_work s (add_film s i j fn ln ag t d y)"
    using add_film_existing_one_unit by blast
  have two: "length (snd (add_film s i j fn ln ag t d y)) \<le> 2"
    by (rule add_film_at_most_two)
  have exact: "(\<forall>f. select_film s t y = Some f \<longrightarrow>
            (find (\<lambda>x. id_film_actor x = j) (film_actor_table s) = None \<longrightarrow>
               add_film s i j fn ln ag t d y =
                 (Inr (Redirect_film_detail t y),
                  [s\<lparr>film_actor_table := film_actor_table s @
                       [\<lparr>id_film_actor = j, film_id = id_film f, actor_id = id_actor a\<rparr>]\<rparr>]))
          \<and> (find (\<lambda>x. id_film_actor x = j) (film_actor_table s) \<noteq> None \<longrightarrow>
               add_film s i j fn ln ag t d y = (Inl IntegrityError, [])))
      \<and> (select_film s t y = None \<longrightarrow>
            (\<not> check_film t d y \<or> get_film s i \<noteq> None \<longrightarrow>
               add_film s i j fn ln ag t d y = (Inl IntegrityError, []))
          \<and> (check_film t d y \<and> get_film s i = None
               \<and> find (\<lambda>x. id_film_actor x = j) (film_actor_table s) = None \<longrightarrow>
               add_film s i j fn ln ag t d y =
                 (Inr (Redirect_film_detail t y),
                  [s\<lparr>film_table := film_table s @
                       [\<lparr>id_film = i, title = t, description = d, year = y\<rparr>]\<rparr>,
                   s\<lparr>film_table := film_table s @
                       [\<lparr>id_film = i, title = t, description = d, year = y\<rparr>],
                     film_actor_table := film_actor_table s @
                       [\<lparr>id_film_actor = j, film_id = i, actor_id = id_actor a\<rparr>]\<rparr>]))
          \<and> (check_film t d y \<and> get_film s i = None
               \<and> find (\<lambda>x. id_film_actor x = j) (film_actor_table s) \<noteq> None \<longrightarrow>
               add_film s i j fn ln ag t d y =
                 (Inl IntegrityError,
                  [s\<lparr>film_table := film_table s @
                       [\<lparr>id_film = i, title = t, description = d, year = y\<rparr>]\<rparr>])
             \<and> db_after s (add_film s i j fn ln ag t d y) =
                 s\<lparr>film_table := film_table s @
                       [\<lparr>id_film = i, title = t, description = d, year = y\<rparr>]\<rparr>
             \<and> db_after s (add_film s i j fn ln ag t d y) \<noteq> s))"
    if h: "valid_store s \<and> select_actor s fn ln ag = Some a
          \<and> \<not> is_Conflict (fst (add_film s i j fn ln ag t d y))" for a
  proof -
    from h have v: "valid_store s" and a: "select_actor s fn ln ag = Some a"
      and nt: "\<not> is_Conflict (fst (add_film s i j fn ln ag t d y))"
      by simp_all
    let ?s1 = "s\<lparr>film_table := film_table s @
                       [\<lparr>id_film = i, title = t, description = d, year = y\<rparr>]\<rparr>"
    have e1: "add_film s i j fn ln ag t d y =
                 (Inr (Redirect_film_detail t y),
                  [s\<lparr>film_actor_table := film_actor_table s @
                       [\<lparr>id_film_actor = j, film_id = id_film f, actor_id = id_actor a\<rparr>]\<rparr>])"
      if "select_film s t y = Some f"
        "find (\<lambda>x. id_film_actor x = j) (film_actor_table s) = None" for f
      by (rule add_film_links_existing[OF v a nt that])
    have e2: "add_film s i j fn ln ag t d y = (Inl IntegrityError, [])"
      if "select_film s t y = Some f"
        "find (\<lambda>x. id_film_actor x = j) (film_actor_table s) \<noteq> None" for f
      by (rule add_film_existing_link_refused[OF v a nt that])
    have n1: "add_film s i j fn ln ag t d y = (Inl IntegrityError, [])"
      if "select_film s t y = None" "\<not> check_film t d y \<or> get_film s i \<noteq> None"
      using that(2) add_film_refused[OF v a nt that(1)] add_film_refused_id[OF v a nt that(1)]
      by blast
    have n2: "add_film s i j fn ln ag t d y =
                 (Inr (Redirect_film_detail t y),
                  [?s1, ?s1\<lparr>film_actor_table := film_actor_table s @
                       [\<lparr>id_film_actor = j, film_id = i, actor_id = id_actor a\<rparr>]\<rparr>])"
      if "select_film s t y = None" "check_film t d y" "get_film s i = None"
        "find (\<lambda>x. id_film_actor x = j) (film_actor_table s) = None"
      using add_film_links_new[OF v a nt that] by simp
    have n3: "add_film s i j fn ln ag t d y = (Inl IntegrityError, [?s1])"
      if "select_film s t y = None" "check_film t d y" "get_film s i = None"
        "find (\<lambda>x. id_film_actor x = j) (film_actor_table s) \<noteq> None"
      by (rule add_film_link_refused[OF v a nt that])
    have n4: "db_after s (add_film s i j fn ln ag t d y) = ?s1"
        "db_after s (add_film s i j fn ln ag t d y) \<noteq> s"
      if "select_film s t y = None" "check_film t d y" "get_film s i = None"
        "find (\<lambda>x. id_film_actor x = j) (film_actor_table s) \<noteq> None"
    proof -
      show "db_after s (add_film s i j fn ln ag t d y) = ?s1"
        by (simp add: n3[OF that] db_after_def)
      then show "db_after s (add_film s i j fn ln ag t d y) \<noteq> s"
        by (simp only: film_appended_differs not_False_eq_True)
    qed
    from e1 e2 n1 n2 n3 n4 show ?thesis by blast
  qed
  from six early existing two exact show ?thesis by blast
qed

theorem units_of_work_witness:
  "is_Conflict (fst (add_film demo_store 13 24 ''Tom'' ''Hanks'' 60 ''Cast Away'' ''Again'' 2000))
   \<and> select_film demo_store ''Cast Away'' 2000 \<noteq> None
   \<and> snd (add_film demo_store 13 24 ''Tom'' ''Hanks'' 60 ''Cast Away'' ''Again'' 2000) = []
   \<and> db_after demo_store
        (add_film demo_store 13 24 ''Tom'' ''Hanks'' 60 ''Cast Away'' ''Again'' 2000) = demo_store
   \<and> one_unit_of_work demo_store
        (add_film demo_store 13 24 ''Tom'' ''Hanks'' 60 ''Cast Away'' ''Again'' 2000)
   \<and> is_NotFound (fst (add_film demo_store 13 24 ''No'' ''Body'' 1 ''Big'' ''A boy'' 1988))
   \<and> snd (add_film demo_store 13 24 ''No'' ''Body'' 1 ''Big'' ''A boy'' 1988) = []
   \<and> db_after demo_store
        (add_film demo_store 13 24 ''No'' ''Body'' 1 ''Big'' ''A boy'' 1988) = demo_store
   \<and> one_unit_of_work demo_store (update_actor demo_store 1 ''Tom'' ''Hanks'' 60)
   \<and> one_unit_of_work demo_store (delete_actor demo_store 1)
   \<and> length (snd (add_film demo_store 13 24 ''Tom'' ''Hanks'' 60 ''Big'' ''A boy'' 1988)) \<le> 2
   \<and> valid_store demo_store
   \<and> select_actor demo_store ''Meg'' ''Ryan'' 55 = Some meg
   \<and> select_actor demo_store ''Tom'' ''Hanks'' 60 = Some tom
   \<and> select_film demo_store ''Cast Away'' 2000 = Some cast_away
   \<and> find (\<lambda>x. id_film_actor x = 24) (film_actor_table demo_store) = None
   \<and> find (\<lambda>x. id_film_actor x = 21) (film_actor_table demo_store) \<noteq> None
   \<and> add_film demo_store 13 24 ''Meg'' ''Ryan'' 55 ''Cast Away'' ''Again'' 2000 =
       (Inr (Redirect_film_detail ''Cast Away'' 2000),
        [demo_store\<lparr>film_actor_table := film_actor_table demo_store @
            [\<lparr>id_film_actor = 24, film_id = 11, actor_id = 2\<rparr>]\<rparr>])
   \<and> add_film demo_store 13 21 ''Meg'' ''Ryan'' 55 ''Cast Away'' ''Again'' 2000 =
       (Inl IntegrityError, [])
   \<and> select_film demo_store ''Big'' 1800 = None \<and> \<not> check_film ''Big'' ''A boy'' 1800
   \<and> add_film demo_store 13 24 ''Tom'' ''Hanks'' 60 ''Big'' ''A boy'' 1800 =
       (Inl IntegrityError, [])
   \<and> select_film demo_store ''Big'' 1988 = None \<and> check_film ''Big'' ''A boy'' 1988
   \<and> get_film demo_store 13 = None
   \<and> add_film demo_store 13 24 ''Tom'' ''Hanks'' 60 ''Big'' ''A boy'' 1988 =
       (Inr (Redirect_film_detail ''Big'' 1988),
        [demo_store\<lparr>film_table := film_table demo_store @
            [\<lparr>id_film = 13, title = ''Big'', description = ''A boy'', year = 1988\<rparr>]\<rparr>,
         demo_store\<lparr>film_table := film_table demo_store @
            [\<lparr>id_film = 13, title = ''Big'', description = ''A boy'', year = 1988\<rparr>],
           film_actor_table := film_actor_table demo_store @
            [\<lparr>id_film_actor = 24, film_id = 13, actor_id = 1\<rparr>]\<rparr>])
   \<and> add_film demo_store 13 21 ''Meg'' ''Ryan'' 55 ''Big'' ''A boy'' 1988 =
       (Inl IntegrityError,
        [demo_store\<lparr>film_table := film_table demo_store @
            [\<lparr>id_film = 13, title = ''Big'', description = ''A boy'', year = 1988\<rparr>]\<rparr>])
   \<and> db_after demo_store (add_film demo_store 13 21 ''Meg'' ''Ryan'' 55 ''Big'' ''A boy'' 1988)
       \<noteq> demo_store"
proof -
  have c: "is_Conflict (fst (add_film demo_store 13 24 ''Tom'' ''Hanks'' 60 ''Cast Away'' ''Again'' 2000))"
    by (simp add: demo_defs add_film_eval)
  have n: "is_NotFound (fst (add_film demo_store 13 24 ''No'' ''Body'' 1 ''Big'' ''A boy'' 1988))"
    by (simp add: demo_defs add_film_eval)
  have f: "select_film demo_store ''Cast Away'' 2000 \<noteq> None"
    by (simp add: demo_defs select_film_def)
  have a: "select_actor demo_store ''Meg'' ''Ryan'' 55 = Some meg"
    "select_actor demo_store ''Tom'' ''Hanks'' 60 = Some tom"
    by (simp_all add: demo_defs select_actor_def)
  have sf: "select_film demo_store ''Cast Away'' 2000 = Some cast_away"
    "select_film demo_store ''Big'' 1800 = None" "select_film demo_store ''Big'' 1988 = None"
    by (simp_all add: demo_defs select_film_def)
  have g: "get_film demo_store 13 = None"
    by (simp add: demo_defs get_film_def)
  have j: "find (\<lambda>x. id_film_actor x = 24) (film_actor_table demo_store) = None"
    "find (\<lambda>x. id_film_actor x = 21) (film_actor_table demo_store) \<noteq> None"
    by (simp_all add: demo_defs)
  have ck: "\<not> check_film ''Big'' ''A boy'' 1800" "check_film ''Big'' ''A boy'' 1988"
    by (simp_all add: check_film_def)
  have nc: "\<not> is_Conflict (fst (add_film demo_store 13 24 ''Meg'' ''Ryan'' 55 ''Cast Away'' ''Again'' 2000))"
    "\<not> is_Conflict (fst (add_film demo_store 13 21 ''Meg'' ''Ryan'' 55 ''Cast Away'' ''Again'' 2000))"
    "\<not> is_Conflict (fst (add_film demo_store 13 24 ''Tom'' ''Hanks'' 60 ''Big'' ''A boy'' 1800))"
    "\<not> is_Conflict (fst (add_film demo_store 13 24 ''Tom'' ''Hanks'' 60 ''Big'' ''A boy'' 1988))"
    "\<not> is_Conflict (fst (add_film demo_store 13 21 ''Meg'' ''Ryan'' 55 ''Big'' ''A boy'' 1988))"
    by (simp_all add: demo_defs add_film_eval)
  have m: "id_film cast_away = 11" "id_actor tom = 1" "id_actor meg = 2"
    by (simp_all add: demo_defs)
  note t1 = units_of_work[of demo_store 13 "''Tom''" "''Hanks''" 60 1 11 "''Cast Away''" "''Again''" 2000 24]
  note t2 = units_of_work[of demo_store 13 "''No''" "''Body''" 1 1 11 "''Big''" "''A boy''" 1988 24]
  note t3 = units_of_work[of demo_store 13 "''Tom''" "''Hanks''" 60 1 11 "''Big''" "''A boy''" 1988 24]
  from t1 c f t2 n t3
  have old: "snd (add_film demo_store 13 24 ''Tom'' ''Hanks'' 60 ''Cast Away'' ''Again'' 2000) = []
   \<and> db_after demo_store
        (add_film demo_store 13 24 ''Tom'' ''Hanks'' 60 ''Cast Away'' ''Again'' 2000) = demo_store
   \<and> one_unit_of_work demo_store
        (add_film demo_store 13 24 ''Tom'' ''Hanks'' 60 ''Cast Away'' ''Again'' 2000)
   \<and> snd (add_film demo_store 13 24 ''No'' ''Body'' 1 ''Big'' ''A boy'' 1988) = []
   \<and> db_after demo_store
        (add_film demo_store 13 24 ''No'' ''Body'' 1 ''Big'' ''A boy'' 1988) = demo_store
   \<and> one_unit_of_work demo_store (update_actor demo_store 1 ''Tom'' ''Hanks'' 60)
   \<and> one_unit_of_work demo_store (delete_actor demo_store 1)
   \<and> length (snd (add_film demo_store 13 24 ''Tom'' ''Hanks'' 60 ''Big'' ''A boy'' 1988)) \<le> 2"
    by blast
  note x1 = units_of_work[of demo_store 13 "''Meg''" "''Ryan''" 55 1 11 "''Cast Away''" "''Again''" 2000 24,
      THEN conjunct2, THEN conjunct2, THEN conjunct2, THEN conjunct2, THEN conjunct2,
      THEN conjunct2, THEN conjunct2, THEN conjunct2, THEN conjunct2, rule_format,
      OF conjI[OF valid_demo_store conjI[OF a(1) nc(1)]]]
  note x2 = units_of_work[of demo_store 13 "''Meg''" "''Ryan''" 55 1 11 "''Cast Away''" "''Again''" 2000 21,
      THEN conjunct2, THEN conjunct2, THEN conjunct2, THEN conjunct2, THEN conjunct2,
      THEN conjunct2, THEN conjunct2, THEN conjunct2, THEN conjunct2, rule_format,
      OF conjI[OF valid_demo_store conjI[OF a(1) nc(2)]]]
  note x3 = units_of_work[of demo_store 13 "''Tom''" "''Hanks''" 60 1 11 "''Big''" "''A boy''" 1800 24,
      THEN conjunct2, THEN conjunct2, THEN conjunct2, THEN conjunct2, THEN conjunct2,
      THEN conjunct2, THEN conjunct2, THEN conjunct2, THEN conjunct2, rule_format,
      OF conjI[OF valid_demo_store conjI[OF a(2) nc(3)]]]
  note x4 = units_of_work[of demo_store 13 "''Tom''" "''Hanks''" 60 1 11 "''Big''" "''A boy''" 1988 24,
      THEN conjunct2, THEN conjunct2, THEN conjunct2, THEN conjunct2, THEN conjunct2,
      THEN conjunct2, THEN conjunct2, THEN conjunct2, THEN conjunct2, rule_format,
      OF conjI[OF valid_demo_store conjI[OF a(2) nc(4)]]]
  note x5 = units_of_work[of demo_store 13 "''Meg''" "''Ryan''" 55 1 11 "''Big''" "''A boy''" 1988 21,
      THEN conjunct2, THEN conjunct2, THEN conjunct2, THEN conjunct2, THEN conjunct2,
      THEN conjunct2, THEN conjunct2, THEN conjunct2, THEN conjunct2, rule_format,
      OF conjI[OF valid_demo_store conjI[OF a(1) nc(5)]]]
  from x1[THEN conjunct1, rule_format, OF sf(1), THEN conjunct1, rule_format, OF j(1)]
  have r1: "add_film demo_store 13 24 ''Meg'' ''Ryan'' 55 ''Cast Away'' ''Again'' 2000 =
       (Inr (Redirect_film_detail ''Cast Away'' 2000),
        [demo_store\<lparr>film_actor_table := film_actor_table demo_store @
            [\<lparr>id_film_actor = 24, film_id = 11, actor_id = 2\<rparr>]\<rparr>])"
    by (simp add: m)
  from x2[THEN conjunct1, rule_format, OF sf(1), THEN conjunct2, rule_format, OF j(2)]
  have r2: "add_film demo_store 13 21 ''Meg'' ''Ryan'' 55 ''Cast Away'' ''Again'' 2000 =
       (Inl IntegrityError, [])" .
  from x3[THEN conjunct2, rule_format, OF sf(2), THEN conjunct1, rule_format, OF disjI1[OF ck(1)]]
  have r3: "add_film demo_store 13 24 ''Tom'' ''Hanks'' 60 ''Big'' ''A boy'' 1800 =
       (Inl IntegrityError, [])" .
  from x4[THEN conjunct2, rule_format, OF sf(3), THEN conjunct2, THEN conjunct1, rule_format,
      OF conjI[OF ck(2) conjI[OF g j(1)]]]
  have r4: "add_film demo_store 13 24 ''Tom'' ''Hanks'' 60 ''Big'' ''A boy'' 1988 =
       (Inr (Redirect_film_detail ''Big'' 1988),
        [demo_store\<lparr>film_table := film_table demo_store @
            [\<lparr>id_film = 13, title = ''Big'', description = ''A boy'', year = 1988\<rparr>]\<rparr>,
         demo_store\<lparr>film_table := film_table demo_store @
            [\<lparr>id_film = 13, title = ''Big'', description = ''A boy'', year = 1988\<rparr>],
           film_actor_table := film_actor_table demo_store @
            [\<lparr>id_film_actor = 24, film_id = 13, actor_id = 1\<rparr>]\<rparr>])"
    by (simp add: m)
  note x5' = x5[THEN conjunct2, rule_format, OF sf(3), THEN conjunct2, THEN conjunct2, rule_format,
      OF conjI[OF ck(2) conjI[OF g j(2)]]]
  from x5'[THEN conjunct1]
  have r5: "add_film demo_store 13 21 ''Meg'' ''Ryan'' 55 ''Big'' ''A boy'' 1988 =
       (Inl IntegrityError,
        [demo_store\<lparr>film_table := film_table demo_store @
            [\<lparr>id_film = 13, title = ''Big'', description = ''A boy'', year = 1988\<rparr>]\<rparr>])" .
  from x5'[THEN conjunct2, THEN conjunct2]
  have r6: "db_after demo_store (add_film demo_store 13 21 ''Meg'' ''Ryan'' 55 ''Big'' ''A boy'' 1988)
       \<noteq> demo_store" .
  from c f n old valid_demo_store a sf j ck g r1 r2 r3 r4 r5 r6 show ?thesis by blast
qed

text \<open>
  The scenario of \<^verbatim>\<open>test_add_film\<close>: the film is committed on its own, in a state where
  it has no actor, before the association is added and committed.
\<close>

theorem add_film_commits_twice_counterexample:
  "add_film tom_only_store 11 21 ''Tom'' ''Hanks'' 60
       ''Forrest Gump'' ''A story about a man named Forrest.'' 1994 =
     (Inr (Redirect_film_detail ''Forrest Gump'' 1994),
      [\<lparr>actor_table = [tom], film_table = [forrest_gump], film_actor_table = []\<rparr>,
       \<lparr>actor_table = [tom], film_table = [forrest_gump],
        film_actor_table = [\<lparr>id_film_actor = 21, film_id = 11, actor_id = 1\<rparr>]\<rparr>])
   \<and> \<not> one_unit_of_work tom_only_store
         (add_film tom_only_store 11 21 ''Tom'' ''Hanks'' 60
            ''Forrest Gump'' ''A story about a man named Forrest.'' 1994)"
  by (simp add: tom_only_store_def tom_def forrest_gump_def add_film_eval one_unit_of_work_def)

text \<open>
  Claim C6 does not hold of the code: when \<^verbatim>\<open>requests.get\<close> raises, \<^verbatim>\<open>get_rating_movie\<close>
  raises, and so does the detail view of a film that is in the database.
\<close>

theorem rating_failure_propagates:
  "select_film demo_store ''Cast Away'' 2000 = Some cast_away
   \<and> get_rating_movie unreachable ''Cast Away'' = Inl RequestException
   \<and> detail demo_store unreachable ''Cast Away'' 2000 = (Inl RequestException, [])"
  by (simp add: demo_defs select_film_def get_rating_movie_def unreachable_def detail_def)

lemma rating_status_not_ok:
  "http (API_URL @ t) = Reply code body \<Longrightarrow> code \<noteq> OK \<Longrightarrow> get_rating_movie http t = Inr None"
  by (simp add: get_rating_movie_def)

lemma detail_renders_without_rating:
  assumes "select_film s t y = Some f" "get_rating_movie http t = Inr None"
  shows "detail s http t y =
           (Inr (Render_film_detail f (map (actor_of s) (film_people s f)) None), [])"
  using assms by (simp add: detail_def)

section \<open>Well-formed stores are closed under the operations\<close>

lemma find_None_image: "find (\<lambda>x. k x = i) xs = None \<longleftrightarrow> i \<notin> k ` set xs"
  by (auto simp: find_None_iff)

lemma valid_store_sets:
  "valid_store s \<longleftrightarrow>
     distinct (map id_actor (actor_table s))
   \<and> distinct (map (\<lambda>a. (first_name a, last_name a, age a)) (actor_table s))
   \<and> (\<forall>a\<in>set (actor_table s). check_actor (first_name a) (last_name a) (age a))
   \<and> distinct (map id_film (film_table s))
   \<and> distinct (map (\<lambda>f. (title f, year f)) (film_table s))
   \<and> (\<forall>f\<in>set (film_table s). check_film (title f) (description f) (year f))
   \<and> distinct (map id_film_actor (film_actor_table s))
   \<and> distinct (map (\<lambda>r. (film_id r, actor_id r)) (film_actor_table s))
   \<and> (\<forall>r\<in>set (film_actor_table s).
         film_id r \<in> id_film ` set (film_table s) \<and> actor_id r \<in> id_actor ` set (actor_table s))"
  by (simp add: valid_store_def list_all_iff get_film_def get_actor_def find_None_image)

lemma valid_empty_store: "valid_store empty_store"
  by (simp add: valid_store_def empty_store_def)

lemma insert_actor_valid:
  assumes "valid_store s" "insert_actor s a = Inr s'"
  shows "valid_store s'"
proof -
  from assms(2) have c: "check_actor (first_name a) (last_name a) (age a)"
    and i: "id_actor a \<notin> id_actor ` set (actor_table s)"
    and t: "select_actor s (first_name a) (last_name a) (age a) = None"
    and s': "s' = s\<lparr>actor_table := actor_table s @ [a]\<rparr>"
    by (auto simp: insert_actor_def get_actor_def find_None_image split: if_splits)
  from t have "(first_name a, last_name a, age a)
                 \<notin> (\<lambda>a. (first_name a, last_name a, age a)) ` set (actor_table s)"
    by (auto simp: select_actor_None_iff)
  with assms(1) c i show ?thesis
    unfolding s' valid_store_sets by auto
qed

lemma insert_film_valid:
  assumes "valid_store s" "insert_film s f = Inr s'"
  shows "valid_store s'"
proof -
  from assms(2) have c: "check_film (title f) (description f) (year f)"
    and i: "id_film f \<notin> id_film ` set (film_table s)"
    and t: "select_film s (title f) (year f) = None"
    and s': "s' = s\<lparr>film_table := film_table s @ [f]\<rparr>"
    by (auto simp: insert_film_def get_film_def find_None_image split: if_splits)
  from t have "(title f, year f) \<notin> (\<lambda>f. (title f, year f)) ` set (film_table s)"
    by (auto simp: select_film_None_iff)
  with assms(1) c i show ?thesis
    unfolding s' valid_store_sets by auto
qed

lemma insert_film_actor_valid:
  assumes "valid_store s" "insert_film_actor s r = Inr s'"
  shows "valid_store s'"
proof -
  from assms(2) have i: "id_film_actor r \<notin> id_film_actor ` set (film_actor_table s)"
    and p: "select_film_actor s (film_id r) (actor_id r) = None"
    and fk: "film_id r \<in> id_film ` set (film_table s)"
      "actor_id r \<in> id_actor ` set (actor_table s)"
    and s': "s' = s\<lparr>film_actor_table := film_actor_table s @ [r]\<rparr>"
    by (auto simp: insert_film_actor_def get_film_def get_actor_def find_None_image
          split: if_splits)
  from p have "(film_id r, actor_id r)
                 \<notin> (\<lambda>r. (film_id r, actor_id r)) ` set (film_actor_table s)"
    by (auto simp: select_film_actor_def find_None_iff)
  with assms(1) i fk show ?thesis
    unfolding s' valid_store_sets by auto
qed

lemma distinct_after_update:
  assumes "distinct (map k xs)" "distinct (map t xs)"
    and "\<forall>x\<in>set xs. k x \<noteq> i \<longrightarrow> t x \<noteq> new"
  shows "distinct (map (\<lambda>x. if k x = i then new else t x) xs)"
  using assms
proof (induction xs)
  case Nil
  then show ?case by simp
next
  case (Cons x xs)
  then have IH: "distinct (map (\<lambda>x. if k x = i then new else t x) xs)" by simp
  have "(if k x = i then new else t x) \<notin> (\<lambda>x. if k x = i then new else t x) ` set xs"
  proof (cases "k x = i")
    case True
    with Cons.prems(1) have "\<forall>y\<in>set xs. k y \<noteq> i" by (auto simp: image_iff)
    with Cons.prems(3) True show ?thesis by (auto simp: image_iff)
  next
    case False
    with Cons.prems show ?thesis by (auto simp: image_iff)
  qed
  with IH show ?case by simp
qed

lemma map_key_after_update:
  "(\<And>x. k (g x) = k x) \<Longrightarrow> map k (map (\<lambda>x. if P x then g x else x) xs) = map k xs"
  by (induction xs) simp_all

lemma map_fields_after_update:
  "map t (map (\<lambda>x. if P x then g x else x) xs) = map (\<lambda>x. if P x then t (g x) else t x) xs"
  by (induction xs) simp_all

lemma update_actor_where_id_valid:
  assumes v: "valid_store s" and u: "update_actor_where_id s i fn ln ag = Inr s'"
  shows "valid_store s'"
proof -
  let ?upd = "\<lambda>a. if id_actor a = i then a\<lparr>first_name := fn, last_name := ln, age := ag\<rparr> else a"
  from u have c: "get_actor s i \<noteq> None \<longrightarrow> check_actor fn ln ag"
    and o: "\<forall>a\<in>set (actor_table s). id_actor a \<noteq> i \<longrightarrow>
              (first_name a, last_name a, age a) \<noteq> (fn, ln, ag)"
    and s': "s' = s\<lparr>actor_table := map ?upd (actor_table s)\<rparr>"
    by (auto simp: update_actor_where_id_def list_ex_iff split: if_splits)
  have tbl: "actor_table s' = map ?upd (actor_table s)" "film_table s' = film_table s"
    "film_actor_table s' = film_actor_table s"
    by (simp_all add: s')
  have ids: "map id_actor (map ?upd (actor_table s)) = map id_actor (actor_table s)"
    by (rule map_key_after_update) simp
  have tr: "map (\<lambda>a. (first_name a, last_name a, age a)) (map ?upd (actor_table s))
          = map (\<lambda>a. if id_actor a = i then (fn, ln, ag) else (first_name a, last_name a, age a))
              (actor_table s)"
    by (simp only: map_fields_after_update) simp
  from v have d: "distinct (map id_actor (actor_table s))"
    "distinct (map (\<lambda>a. (first_name a, last_name a, age a)) (actor_table s))"
    by (simp_all only: valid_store_sets)
  have g1: "distinct (map id_actor (actor_table s'))"
    unfolding tbl ids by (rule d(1))
  have g2: "distinct (map (\<lambda>a. (first_name a, last_name a, age a)) (actor_table s'))"
    unfolding tbl tr by (rule distinct_after_update[OF d o])
  have g3: "\<forall>a\<in>set (actor_table s'). check_actor (first_name a) (last_name a) (age a)"
  proof
    fix a assume "a \<in> set (actor_table s')"
    then obtain b where b: "b \<in> set (actor_table s)" "a = ?upd b"
      unfolding tbl by auto
    show "check_actor (first_name a) (last_name a) (age a)"
    proof (cases "id_actor b = i")
      case True
      with b(1) have "get_actor s i \<noteq> None"
        by (auto simp: get_actor_def find_None_image)
      with c True b(2) show ?thesis by simp
    next
      case False
      from v b(1) have "check_actor (first_name b) (last_name b) (age b)"
        by (simp only: valid_store_sets)
      with False b(2) show ?thesis by simp
    qed
  qed
  have "set (map id_actor (actor_table s')) = set (map id_actor (actor_table s))"
    by (simp only: tbl ids)
  then have im: "id_actor ` set (actor_table s') = id_actor ` set (actor_table s)"
    by (simp only: set_map)
  have rest: "distinct (map id_film (film_table s'))"
    "distinct (map (\<lambda>f. (title f, year f)) (film_table s'))"
    "\<forall>f\<in>set (film_table s'). check_film (title f) (description f) (year f)"
    "distinct (map id_film_actor (film_actor_table s'))"
    "distinct (map (\<lambda>r. (film_id r, actor_id r)) (film_actor_table s'))"
    "\<forall>r\<in>set (film_actor_table s').
         film_id r \<in> id_film ` set (film_table s') \<and> actor_id r \<in> id_actor ` set (actor_table s')"
    unfolding im unfolding tbl using v[unfolded valid_store_sets] by blast+
  from g1 g2 g3 rest show ?thesis
    by (simp only: valid_store_sets) 
qed

lemma update_film_where_id_valid:
  assumes v: "valid_store s" and u: "update_film_where_id s i t d y = Inr s'"
  shows "valid_store s'"
proof -
  let ?upd = "\<lambda>f. if id_film f = i then f\<lparr>title := t, description := d, year := y\<rparr> else f"
  from u have c: "get_film s i \<noteq> None \<longrightarrow> check_film t d y"
    and o: "\<forall>f\<in>set (film_table s). id_film f \<noteq> i \<longrightarrow> (title f, year f) \<noteq> (t, y)"
    and s': "s' = s\<lparr>film_table := map ?upd (film_table s)\<rparr>"
    by (auto simp: update_film_where_id_def list_ex_iff split: if_splits)
  have tbl: "film_table s' = map ?upd (film_table s)" "actor_table s' = actor_table s"
    "film_actor_table s' = film_actor_table s"
    by (simp_all add: s')
  have ids: "map id_film (map ?upd (film_table s)) = map id_film (film_table s)"
    by (rule map_key_after_update) simp
  have tr: "map (\<lambda>f. (title f, year f)) (map ?upd (film_table s))
          = map (\<lambda>f. if id_film f = i then (t, y) else (title f, year f)) (film_table s)"
    by (simp only: map_fields_after_update) simp
  from v have dd: "distinct (map id_film (film_table s))"
    "distinct (map (\<lambda>f. (title f, year f)) (film_table s))"
    by (simp_all only: valid_store_sets)
  have g1: "distinct (map id_film (film_table s'))"
    unfolding tbl ids by (rule dd(1))
  have g2: "distinct (map (\<lambda>f. (title f, year f)) (film_table s'))"
    unfolding tbl tr by (rule distinct_after_update[OF dd o])
  have g3: "\<forall>f\<in>set (film_table s'). check_film (title f) (description f) (year f)"
  proof
    fix f assume "f \<in> set (film_table s')"
    then obtain b where b: "b \<in> set (film_table s)" "f = ?upd b"
      unfolding tbl by auto
    show "check_film (title f) (description f) (year f)"
    proof (cases "id_film b = i")
      case True
      with b(1) have "get_film s i \<noteq> None"
        by (auto simp: get_film_def find_None_image)
      with c True b(2) show ?thesis by simp
    next
      case False
      from v b(1) have "check_film (title b) (description b) (year b)"
        by (simp only: valid_store_sets)
      with False b(2) show ?thesis by simp
    qed
  qed
  have "set (map id_film (film_table s')) = set (map id_film (film_table s))"
    by (simp only: tbl ids)
  then have im: "id_film ` set (film_table s') = id_film ` set (film_table s)"
    by (simp only: set_map)
  have rest: "distinct (map id_actor (actor_table s'))"
    "distinct (map (\<lambda>a. (first_name a, last_name a, age a)) (actor_table s'))"
    "\<forall>a\<in>set (actor_table s'). check_actor (first_name a) (last_name a) (age a)"
    "distinct (map id_film_actor (film_actor_table s'))"
    "distinct (map (\<lambda>r. (film_id r, actor_id r)) (film_actor_table s'))"
    "\<forall>r\<in>set (film_actor_table s').
         film_id r \<in> id_film ` set (film_table s') \<and> actor_id r \<in> id_actor ` set (actor_table s')"
    unfolding im unfolding tbl using v[unfolded valid_store_sets] by blast+
  from g1 g2 g3 rest show ?thesis
    by (simp only: valid_store_sets)
qed

lemma delete_rows_valid:
  assumes "valid_store s"
  shows "valid_store (s\<lparr>film_actor_table := filter P (film_actor_table s)\<rparr>)"
  using assms unfolding valid_store_sets by (simp add: distinct_map_filter)

lemma delete_film_row_valid:
  assumes v: "valid_store s" and d: "delete_film_row s f = Inr s'"
  shows "valid_store s'"
proof -
  from d have n: "\<forall>r\<in>set (film_actor_table s). film_id r \<noteq> id_film f"
    and s': "s' = s\<lparr>film_table := filter (\<lambda>x. id_film x \<noteq> id_film f) (film_table s)\<rparr>"
    by (auto simp: delete_film_row_def list_ex_iff split: if_splits)
  have "film_id r \<in> id_film ` set (filter (\<lambda>x. id_film x \<noteq> id_film f) (film_table s))"
    if "r \<in> set (film_actor_table s)" for r
  proof -
    from v that obtain g where "g \<in> set (film_table s)" "id_film g = film_id r"
      unfolding valid_store_sets by force
    with n that show ?thesis by force
  qed
  with v show ?thesis
    unfolding s' valid_store_sets by (simp add: distinct_map_filter)
qed

lemma delete_actor_row_valid:
  assumes v: "valid_store s" and d: "delete_actor_row s a = Inr s'"
  shows "valid_store s'"
proof -
  from d have n: "\<forall>r\<in>set (film_actor_table s). actor_id r \<noteq> id_actor a"
    and s': "s' = s\<lparr>actor_table := filter (\<lambda>x. id_actor x \<noteq> id_actor a) (actor_table s)\<rparr>"
    by (auto simp: delete_actor_row_def list_ex_iff split: if_splits)
  have "actor_id r \<in> id_actor ` set (filter (\<lambda>x. id_actor x \<noteq> id_actor a) (actor_table s))"
    if "r \<in> set (film_actor_table s)" for r
  proof -
    from v that obtain b where "b \<in> set (actor_table s)" "id_actor b = actor_id r"
      unfolding valid_store_sets by force
    with n that show ?thesis by force
  qed
  with v show ?thesis
    unfolding s' valid_store_sets by (simp add: distinct_map_filter)
qed

lemma delete_films_valid:
  "valid_store s \<Longrightarrow> delete_films s fs = Inr s' \<Longrightarrow> valid_store s'"
proof (induction fs arbitrary: s)
  case Nil
  then show ?case by simp
next
  case (Cons f fs)
  from Cons.prems(2) obtain s1 where s1: "delete_film_row s f = Inr s1"
    "delete_films s1 fs = Inr s'"
    by (auto split: sum.splits)
  from Cons.IH[OF delete_film_row_valid[OF Cons.prems(1) s1(1)] s1(2)] show ?case .
qed

text \<open>
  Every state an operation commits is well formed when the state it started from is: the
  well-formed stores are closed under the seven views, starting with the empty database.
\<close>

lemma commits_valid:
  assumes v: "valid_store s"
  shows "\<forall>s'\<in>set (snd (add_actor s i fn ln ag)). valid_store s'"
    and "\<forall>s'\<in>set (snd (update_actor s aid fn ln ag)). valid_store s'"
    and "\<forall>s'\<in>set (snd (delete_actor s aid)). valid_store s'"
    and "\<forall>s'\<in>set (snd (add_film s i j fn ln ag t d y)). valid_store s'"
    and "\<forall>s'\<in>set (snd (update_film s fid t d y)). valid_store s'"
    and "\<forall>s'\<in>set (snd (delete_film s fid)). valid_store s'"
    and "\<forall>s'\<in>set (snd (delete_film_by_actor s fid aid)). valid_store s'"
proof -
  show "\<forall>s'\<in>set (snd (add_actor s i fn ln ag)). valid_store s'"
    using insert_actor_valid[OF v]
    by (auto simp: add_actor_def split: option.splits sum.splits)
  show "\<forall>s'\<in>set (snd (update_actor s aid fn ln ag)). valid_store s'"
    using update_actor_where_id_valid[OF v]
    by (auto simp: update_actor_def split: option.splits sum.splits)
  show "\<forall>s'\<in>set (snd (update_film s fid t d y)). valid_store s'"
    using update_film_where_id_valid[OF v]
    by (auto simp: update_film_def split: option.splits sum.splits)
  show "\<forall>s'\<in>set (snd (delete_film s fid)). valid_store s'"
    using delete_film_row_valid[OF delete_rows_valid[OF v]]
    by (auto simp: delete_film_def delete_film_actor_where_film_def
          split: option.splits sum.splits)
  show "\<forall>s'\<in>set (snd (delete_film_by_actor s fid aid)). valid_store s'"
    using delete_rows_valid[OF v]
    by (auto simp: delete_film_by_actor_def delete_film_actor_row_def split: option.splits)
  show "\<forall>s'\<in>set (snd (delete_actor s aid)). valid_store s'"
  proof -
    have "valid_store s3"
      if "delete_films (delete_film_actor_where_actor s x) m = Inr s2"
        "delete_actor_row s2 a = Inr s3" for x m s2 a s3
      using delete_actor_row_valid[OF delete_films_valid[OF _ that(1)] that(2)]
        delete_rows_valid[OF v]
      by (simp add: delete_film_actor_where_actor_def)
    then show ?thesis
      by (auto simp: delete_actor_def split: option.splits sum.splits)
  qed
  show "\<forall>s'\<in>set (snd (add_film s i j fn ln ag t d y)). valid_store s'"
  proof -
    have l: "\<forall>s'\<in>set (snd (link_film_actor s1 log j f a t y)). valid_store s'"
      if "valid_store s1" "\<forall>s'\<in>set log. valid_store s'" for s1 log f a
      using insert_film_actor_valid[OF that(1)] that(2)
      by (auto simp: link_film_actor_def split: sum.splits)
    have "\<forall>s'\<in>set (snd (link_film_actor s1 [s1] j f a t y)). valid_store s'"
      if "insert_film s f = Inr s1" for s1 f a
      using l[of s1 "[s1]"] insert_film_valid[OF v that] by simp
    with l[OF v, of "[]"] show ?thesis
      by (auto simp: add_film_def split: option.splits sum.splits)
  qed
qed

end
